theory Spec2Isabelle
  imports Main "HOL-Library.Word" "HOL-Library.Sublist"
begin

unbundle bit_operations_syntax

section \<open>Library functions the code calls\<close>

subsection \<open>crypto/sha256 and encoding/hex\<close>

text \<open>
  \<^verbatim>\<open>sha256.Sum256\<close> on the bytes of a Go string, and \<^verbatim>\<open>hex.EncodeToString\<close> of the digest.
  A Go string is a byte sequence; it is modelled as a \<^typ>\<open>string\<close>, one \<^typ>\<open>char\<close> per byte.
\<close>

type_synonym sha_state =
  "32 word \<times> 32 word \<times> 32 word \<times> 32 word \<times> 32 word \<times> 32 word \<times> 32 word \<times> 32 word"

definition K256 :: "32 word list" where
  "K256 =
    [1116352408, 1899447441, 3049323471, 3921009573, 961987163, 1508970993, 2453635748, 2870763221,
     3624381080, 310598401, 607225278, 1426881987, 1925078388, 2162078206, 2614888103, 3248222580,
     3835390401, 4022224774, 264347078, 604807628, 770255983, 1249150122, 1555081692, 1996064986,
     2554220882, 2821834349, 2952996808, 3210313671, 3336571891, 3584528711, 113926993, 338241895,
     666307205, 773529912, 1294757372, 1396182291, 1695183700, 1986661051, 2177026350, 2456956037,
     2730485921, 2820302411, 3259730800, 3345764771, 3516065817, 3600352804, 4094571909, 275423344,
     430227734, 506948616, 659060556, 883997877, 958139571, 1322822218, 1537002063, 1747873779,
     1955562222, 2024104815, 2227730452, 2361852424, 2428436474, 2756734187, 3204031479, 3329325298]"

definition H256 :: sha_state where
  "H256 = (1779033703, 3144134277, 1013904242, 2773480762,
           1359893119, 2600822924, 528734635, 1541459225)"

definition bsig0 :: "32 word \<Rightarrow> 32 word" where
  "bsig0 x = word_rotr 2 x XOR word_rotr 13 x XOR word_rotr 22 x"

definition bsig1 :: "32 word \<Rightarrow> 32 word" where
  "bsig1 x = word_rotr 6 x XOR word_rotr 11 x XOR word_rotr 25 x"

definition ssig0 :: "32 word \<Rightarrow> 32 word" where
  "ssig0 x = word_rotr 7 x XOR word_rotr 18 x XOR drop_bit 3 x"

definition ssig1 :: "32 word \<Rightarrow> 32 word" where
  "ssig1 x = word_rotr 17 x XOR word_rotr 19 x XOR drop_bit 10 x"

definition ch :: "32 word \<Rightarrow> 32 word \<Rightarrow> 32 word \<Rightarrow> 32 word" where
  "ch x y z = (x AND y) XOR (NOT x AND z)"

definition maj :: "32 word \<Rightarrow> 32 word \<Rightarrow> 32 word \<Rightarrow> 32 word" where
  "maj x y z = (x AND y) XOR (x AND z) XOR (y AND z)"

fun schedule :: "nat \<Rightarrow> 32 word list \<Rightarrow> 32 word list" where
  "schedule 0 ws = ws"
| "schedule (Suc n) ws =
     (let l = length ws in
      schedule n (ws @ [ssig1 (ws ! (l - 2)) + ws ! (l - 7) + ssig0 (ws ! (l - 15)) + ws ! (l - 16)]))"

fun sha_round :: "sha_state \<Rightarrow> 32 word \<times> 32 word \<Rightarrow> sha_state" where
  "sha_round (a, b, c, d, e, f, g, h) (k, w) =
     (let t1 = h + bsig1 e + ch e f g + k + w;
          t2 = bsig0 a + maj a b c
      in (t1 + t2, a, b, c, d + t1, e, f, g))"

fun sha_add :: "sha_state \<Rightarrow> sha_state \<Rightarrow> sha_state" where
  "sha_add (a, b, c, d, e, f, g, h) (a', b', c', d', e', f', g', h') =
     (a + a', b + b', c + c', d + d', e + e', f + f', g + g', h + h')"

definition sha_block :: "sha_state \<Rightarrow> 32 word list \<Rightarrow> sha_state" where
  "sha_block st ws = sha_add st (foldl sha_round st (zip K256 (schedule 48 ws)))"

fun be32 :: "8 word list \<Rightarrow> 32 word list" where
  "be32 (a # b # c # d # r) =
     (push_bit 24 (ucast a) OR push_bit 16 (ucast b) OR push_bit 8 (ucast c) OR ucast d) # be32 r"
| "be32 _ = []"

definition be64 :: "64 word \<Rightarrow> 8 word list" where
  "be64 n = map (\<lambda>i. ucast (drop_bit (8 * i) n)) [7, 6, 5, 4, 3, 2, 1, 0]"

definition sha_pad :: "8 word list \<Rightarrow> 8 word list" where
  "sha_pad bs =
     bs @ [128] @ replicate ((119 - length bs mod 64) mod 64) 0 @ be64 (of_nat (8 * length bs))"

function sha_blocks :: "sha_state \<Rightarrow> 8 word list \<Rightarrow> sha_state" where
  "sha_blocks st bs =
     (if length bs < 64 then st
      else sha_blocks (sha_block st (be32 (take 64 bs))) (drop 64 bs))"
  by pat_completeness auto
termination
  by (relation "measure (\<lambda>(st, bs). length bs)") auto

declare sha_blocks.simps [simp del]

definition sha256 :: "string \<Rightarrow> sha_state" where
  "sha256 s = sha_blocks H256 (sha_pad (map of_char s))"

definition hexdigit :: "nat \<Rightarrow> char" where
  "hexdigit n = ''0123456789abcdef'' ! (n mod 16)"

definition hex32 :: "32 word \<Rightarrow> string" where
  "hex32 w = map (\<lambda>i. hexdigit (unat (drop_bit (4 * i) w AND 15))) [7, 6, 5, 4, 3, 2, 1, 0]"

definition sha256_hex :: "string \<Rightarrow> string" where
  "sha256_hex s =
     (case sha256 s of (a, b, c, d, e, f, g, h) \<Rightarrow> concat (map hex32 [a, b, c, d, e, f, g, h]))"

subsection \<open>strings and regexp\<close>

text \<open>
  \<open>splitOn n s\<close> cuts \<open>s\<close> at the first occurrence of \<open>n\<close> (\<^verbatim>\<open>strings.Index\<close>): the text
  before it and the text after it.
\<close>

fun splitOn :: "string \<Rightarrow> string \<Rightarrow> (string \<times> string) option" where
  "splitOn n [] = (if n = [] then Some ([], []) else None)"
| "splitOn n (c # cs) =
     (if prefix n (c # cs) then Some ([], drop (length n) (c # cs))
      else map_option (\<lambda>(a, b). (c # a, b)) (splitOn n cs))"

lemma splitOn_Some: "splitOn n s = Some (a, b) \<Longrightarrow> s = a @ n @ b"
proof (induction s arbitrary: a b)
  case Nil
  then show ?case by (simp split: if_splits)
next
  case (Cons c cs)
  show ?case
  proof (cases "prefix n (c # cs)")
    case True
    with Cons.prems have "a = []" "b = drop (length n) (c # cs)" by simp_all
    moreover from True have "c # cs = n @ drop (length n) (c # cs)"
      by (metis append_eq_conv_conj prefixE)
    ultimately show ?thesis by simp
  next
    case False
    with Cons.prems obtain a' where "splitOn n cs = Some (a', b)" "a = c # a'"
      by auto
    with Cons.IH show ?thesis by simp
  qed
qed

text \<open>\<^verbatim>\<open>strings.ReplaceAll(s, old, new)\<close> for a non-empty \<open>old\<close>: every non-overlapping
  occurrence, from the left.\<close>

function ReplaceAll :: "string \<Rightarrow> string \<Rightarrow> string \<Rightarrow> string" where
  "ReplaceAll s old new =
     (if old = [] then s
      else case splitOn old s of
             None \<Rightarrow> s
           | Some (a, b) \<Rightarrow> a @ new @ ReplaceAll b old new)"
  by pat_completeness auto
termination
proof (relation "measure (\<lambda>(s, old, new). length s)")
  show "wf (measure (\<lambda>(s, old, new). length s))" by simp
next
  fix s old new :: string and x2 a b
  assume "old \<noteq> []" "splitOn old s = Some x2" "(a, b) = x2"
  then have "s = a @ old @ b" by (simp add: splitOn_Some)
  with \<open>old \<noteq> []\<close> have "length b < length s"
    by (metis add_diff_cancel_right' append_eq_append_conv diff_less length_append
        length_greater_0_conv less_add_same_cancel2 not_add_less2 not_less_iff_gr_or_eq
        trans_less_add2)
  then show "((b, old, new), (s, old, new)) \<in> measure (\<lambda>(s, old, new). length s)" by simp
qed

declare ReplaceAll.simps [simp del]

text \<open>
  \<^verbatim>\<open>strings.TrimSpace\<close>: leading and trailing white space runes are removed, the ASCII ones
  and the others of Unicode's White\_Space property, here by their UTF-8 encodings.
\<close>

definition spaceRunes :: "string list" where
  "spaceRunes =
    [[CHR 0x09], [CHR 0x0A], [CHR 0x0B], [CHR 0x0C], [CHR 0x0D], [CHR 0x20],
     [CHR 0xC2, CHR 0x85], [CHR 0xC2, CHR 0xA0], [CHR 0xE1, CHR 0x9A, CHR 0x80],
     [CHR 0xE2, CHR 0x80, CHR 0x80], [CHR 0xE2, CHR 0x80, CHR 0x81], [CHR 0xE2, CHR 0x80, CHR 0x82],
     [CHR 0xE2, CHR 0x80, CHR 0x83], [CHR 0xE2, CHR 0x80, CHR 0x84], [CHR 0xE2, CHR 0x80, CHR 0x85],
     [CHR 0xE2, CHR 0x80, CHR 0x86], [CHR 0xE2, CHR 0x80, CHR 0x87], [CHR 0xE2, CHR 0x80, CHR 0x88],
     [CHR 0xE2, CHR 0x80, CHR 0x89], [CHR 0xE2, CHR 0x80, CHR 0x8A], [CHR 0xE2, CHR 0x80, CHR 0xA8],
     [CHR 0xE2, CHR 0x80, CHR 0xA9], [CHR 0xE2, CHR 0x80, CHR 0xAF], [CHR 0xE2, CHR 0x81, CHR 0x9F],
     [CHR 0xE3, CHR 0x80, CHR 0x80]]"

lemma spaceRunes_nonempty: "r \<in> set spaceRunes \<Longrightarrow> r \<noteq> []"
  by (auto simp: spaceRunes_def)

function TrimLeftSpace :: "string \<Rightarrow> string" where
  "TrimLeftSpace s =
     (case find (\<lambda>r. prefix r s) spaceRunes of
        None \<Rightarrow> s
      | Some r \<Rightarrow> TrimLeftSpace (drop (length r) s))"
  by pat_completeness auto
termination
proof (relation "measure length")
  show "wf (measure length)" by simp
next
  fix s r :: string
  assume "find (\<lambda>r. prefix r s) spaceRunes = Some r"
  then have "r \<in> set spaceRunes" "prefix r s"
    by (auto simp: find_Some_iff)
  then have "r \<noteq> []" "length r \<le> length s"
    by (auto simp: spaceRunes_nonempty prefix_length_le)
  then show "(drop (length r) s, s) \<in> measure length" by (cases r) auto
qed

declare TrimLeftSpace.simps [simp del]

function TrimRightSpace :: "string \<Rightarrow> string" where
  "TrimRightSpace s =
     (case find (\<lambda>r. suffix r s) spaceRunes of
        None \<Rightarrow> s
      | Some r \<Rightarrow> TrimRightSpace (take (length s - length r) s))"
  by pat_completeness auto
termination
proof (relation "measure length")
  show "wf (measure length)" by simp
next
  fix s r :: string
  assume "find (\<lambda>r. suffix r s) spaceRunes = Some r"
  then have "r \<in> set spaceRunes" "suffix r s"
    by (auto simp: find_Some_iff)
  then have "r \<noteq> []" "length r \<le> length s"
    by (auto simp: spaceRunes_nonempty suffix_length_le)
  then show "(take (length s - length r) s, s) \<in> measure length" by (cases r) auto
qed

declare TrimRightSpace.simps [simp del]

definition TrimSpace :: "string \<Rightarrow> string" where
  "TrimSpace s = TrimRightSpace (TrimLeftSpace s)"

text \<open>
  The four patterns of the request translator. Three have the shape
  \<^verbatim>\<open>open([\s\S]*?)close\<close>: the leftmost match starts at the first \<open>open\<close> and, the group being
  lazy, ends at the first \<open>close\<close> after it. \<open>lazyFind\<close> is \<^verbatim>\<open>FindStringSubmatch\<close> (the text
  before the match, the group, the text after the match), \<open>lazyRemoveAll\<close> is
  \<^verbatim>\<open>ReplaceAllString(s, "")\<close>.
\<close>

definition lazyFind :: "string \<Rightarrow> string \<Rightarrow> string \<Rightarrow> (string \<times> string \<times> string) option" where
  "lazyFind opn cls s =
     (case splitOn opn s of
        None \<Rightarrow> None
      | Some (pre, r) \<Rightarrow>
          (case splitOn cls r of
             None \<Rightarrow> None
           | Some (g, post) \<Rightarrow> Some (pre, g, post)))"

lemma lazyFind_Some: "lazyFind opn cls s = Some (pre, g, post) \<Longrightarrow> s = pre @ opn @ g @ cls @ post"
  by (auto simp: lazyFind_def split: option.splits dest!: splitOn_Some)

function lazyRemoveAll :: "string \<Rightarrow> string \<Rightarrow> string \<Rightarrow> string" where
  "lazyRemoveAll opn cls s =
     (if opn = [] then s
      else case lazyFind opn cls s of
             None \<Rightarrow> s
           | Some (pre, g, post) \<Rightarrow> pre @ lazyRemoveAll opn cls post)"
  by pat_completeness auto
termination
proof (relation "measure (\<lambda>(opn, cls, s). length s)")
  show "wf (measure (\<lambda>(opn, cls, s). length s))" by simp
next
  fix opn cls s :: string and x2 pre y g post
  assume "opn \<noteq> []" "lazyFind opn cls s = Some x2" "(pre, y) = x2" "(g, post) = y"
  then have "s = pre @ opn @ g @ cls @ post" by (simp add: lazyFind_Some)
  then have "length s = length pre + length opn + length g + length cls + length post"
    by simp
  with \<open>opn \<noteq> []\<close> have "length post < length s" by (cases opn) auto
  then show "((opn, cls, post), (opn, cls, s)) \<in> measure (\<lambda>(opn, cls, s). length s)" by simp
qed

declare lazyRemoveAll.simps [simp del]

definition thinkOpen :: string where "thinkOpen = ''<think>''"
definition thinkClose :: string where "thinkClose = ''</think>''"
definition fence :: string where "fence = ''```''"
definition thinkIdOpen :: string where "thinkIdOpen = ''```plaintext:thinkId:''"
definition legacyThinkingOpen :: string where "legacyThinkingOpen = ''```plaintext:Thinking\<newline>''"
definition legacySignatureOpen :: string where "legacySignatureOpen = ''```plaintext:Signature:''"

text \<open>\<^verbatim>\<open>thinkTagRegex = <think>([\s\S]*?)</think>\<close>\<close>

definition thinkTagFind :: "string \<Rightarrow> (string \<times> string \<times> string) option" where
  "thinkTagFind s = lazyFind thinkOpen thinkClose s"

definition thinkTagRemoveAll :: "string \<Rightarrow> string" where
  "thinkTagRemoveAll s = lazyRemoveAll thinkOpen thinkClose s"

text \<open>\<^verbatim>\<open>legacyThinkingRegex\<close> and \<^verbatim>\<open>legacySignatureRegex\<close>\<close>

definition legacyThinkingFind :: "string \<Rightarrow> (string \<times> string \<times> string) option" where
  "legacyThinkingFind s = lazyFind legacyThinkingOpen fence s"

definition legacyThinkingRemoveAll :: "string \<Rightarrow> string" where
  "legacyThinkingRemoveAll s = lazyRemoveAll legacyThinkingOpen fence s"

definition legacySignatureFind :: "string \<Rightarrow> (string \<times> string \<times> string) option" where
  "legacySignatureFind s = lazyFind legacySignatureOpen fence s"

definition legacySignatureRemoveAll :: "string \<Rightarrow> string" where
  "legacySignatureRemoveAll s = lazyRemoveAll legacySignatureOpen fence s"

text \<open>
  \<^verbatim>\<open>thinkIdRegex\<close>: the opener, one or more of \<^verbatim>\<open>[a-f0-9]\<close>, the fence. A backquote is no hex
  digit, so the greedy run of hex digits is the only candidate for the group.
  \<open>matchThinkIdAt s\<close> is a match starting at the head of \<open>s\<close>: the group and the text after the
  match.
\<close>

definition isHexLower :: "char \<Rightarrow> bool" where
  "isHexLower c \<longleftrightarrow> c \<in> set ''0123456789abcdef''"

definition matchThinkIdAt :: "string \<Rightarrow> (string \<times> string) option" where
  "matchThinkIdAt s =
     (if prefix thinkIdOpen s then
        (let r = drop (length thinkIdOpen) s;
             h = takeWhile isHexLower r;
             r' = dropWhile isHexLower r
         in if h \<noteq> [] \<and> prefix fence r' then Some (h, drop (length fence) r') else None)
      else None)"

lemma matchThinkIdAt_Some: "matchThinkIdAt s = Some (h, rest) \<Longrightarrow> s = thinkIdOpen @ h @ fence @ rest"
proof -
  assume a: "matchThinkIdAt s = Some (h, rest)"
  then have p: "prefix thinkIdOpen s"
    by (simp add: matchThinkIdAt_def split: if_splits)
  define r where "r = drop (length thinkIdOpen) s"
  from p have s: "s = thinkIdOpen @ r"
    unfolding r_def by (metis append_eq_conv_conj prefixE)
  from a p have h: "h = takeWhile isHexLower r" and f: "prefix fence (dropWhile isHexLower r)"
    and rest: "rest = drop (length fence) (dropWhile isHexLower r)"
    by (auto simp: matchThinkIdAt_def Let_def r_def split: if_splits)
  from f rest have "dropWhile isHexLower r = fence @ rest"
    by (metis append_eq_conv_conj prefixE)
  then have "r = h @ fence @ rest"
    using h by (metis takeWhile_dropWhile_id)
  with s show ?thesis by simp
qed

fun thinkIdFind :: "string \<Rightarrow> string option" where
  "thinkIdFind [] = None"
| "thinkIdFind (c # cs) =
     (case matchThinkIdAt (c # cs) of
        Some (h, rest) \<Rightarrow> Some h
      | None \<Rightarrow> thinkIdFind cs)"

function thinkIdRemoveAll :: "string \<Rightarrow> string" where
  "thinkIdRemoveAll [] = []"
| "thinkIdRemoveAll (c # cs) =
     (case matchThinkIdAt (c # cs) of
        Some (h, rest) \<Rightarrow> thinkIdRemoveAll rest
      | None \<Rightarrow> c # thinkIdRemoveAll cs)"
  by pat_completeness auto
termination
proof (relation "measure length")
  show "wf (measure length)" by simp
next
  fix c :: char and cs x2 h rest
  assume "matchThinkIdAt (c # cs) = Some x2" "(h, rest) = x2"
  then have "c # cs = thinkIdOpen @ h @ fence @ rest" by (simp add: matchThinkIdAt_Some)
  then have "length (c # cs) = length thinkIdOpen + length h + length fence + length rest"
    by (metis length_append add.assoc)
  then show "(rest, c # cs) \<in> measure length" by (simp add: fence_def)
next
  fix c :: char and cs
  show "(cs, c # cs) \<in> measure length" by simp
qed

subsection \<open>JSON: gjson and sjson\<close>

text \<open>
  A JSON text is modelled by its tree; an object keeps its members in order. Numbers are
  integers (fractions and the 64-bit range are outside the model). \<open>None\<close> stands for a
  result that does not exist.
\<close>

datatype json =
    JNull
  | JBool bool
  | JNum int
  | JStr string
  | JArr "json list"
  | JObj "(string \<times> json) list"

definition digitChar :: "nat \<Rightarrow> char" where
  "digitChar n = ''0123456789'' ! (n mod 10)"

function showNat :: "nat \<Rightarrow> string" where
  "showNat n = (if n < 10 then [digitChar n] else showNat (n div 10) @ [digitChar (n mod 10)])"
  by pat_completeness auto
termination
  by (relation "measure id") auto

declare showNat.simps [simp del]

definition showInt :: "int \<Rightarrow> string" where
  "showInt i = (if i < 0 then CHR ''-'' # showNat (nat (- i)) else showNat (nat i))"

definition isDigit :: "char \<Rightarrow> bool" where
  "isDigit c \<longleftrightarrow> c \<in> set ''0123456789''"

definition digitVal :: "char \<Rightarrow> nat" where
  "digitVal c = of_char c - 48"

definition parseDigits :: "string \<Rightarrow> nat" where
  "parseDigits s = foldl (\<lambda>n c. n * 10 + digitVal c) 0 s"

text \<open>gjson's \<^verbatim>\<open>parseInt\<close>: an optional minus sign and one or more decimal digits.\<close>

definition parseInt :: "string \<Rightarrow> int option" where
  "parseInt s =
     (case s of
        [] \<Rightarrow> None
      | c # cs \<Rightarrow>
          if c = CHR ''-'' then
            (if cs \<noteq> [] \<and> list_all isDigit cs then Some (- int (parseDigits cs)) else None)
          else if list_all isDigit s then Some (int (parseDigits s)) else None)"

definition escapeJSON :: "string \<Rightarrow> string" where
  "escapeJSON s =
     concat (map (\<lambda>c. if c = CHR 0x22 \<or> c = CHR 0x5C then [CHR 0x5C, c] else [c]) s)"

text \<open>The raw text of a value, rendered without white space.\<close>

fun gjsonRaw :: "json \<Rightarrow> string"
  and gjsonRawElems :: "json list \<Rightarrow> string"
  and gjsonRawMembers :: "(string \<times> json) list \<Rightarrow> string" where
  "gjsonRaw JNull = ''null''"
| "gjsonRaw (JBool b) = (if b then ''true'' else ''false'')"
| "gjsonRaw (JNum n) = showInt n"
| "gjsonRaw (JStr s) = [CHR 0x22] @ escapeJSON s @ [CHR 0x22]"
| "gjsonRaw (JArr xs) = ''['' @ gjsonRawElems xs @ '']''"
| "gjsonRaw (JObj kvs) = ''{'' @ gjsonRawMembers kvs @ ''}''"
| "gjsonRawElems [] = []"
| "gjsonRawElems [x] = gjsonRaw x"
| "gjsonRawElems (x # y # ys) = gjsonRaw x @ '','' @ gjsonRawElems (y # ys)"
| "gjsonRawMembers [] = []"
| "gjsonRawMembers [(k, v)] = [CHR 0x22] @ escapeJSON k @ [CHR 0x22] @ '':'' @ gjsonRaw v"
| "gjsonRawMembers ((k, v) # m # ms) =
     [CHR 0x22] @ escapeJSON k @ [CHR 0x22] @ '':'' @ gjsonRaw v @ '','' @ gjsonRawMembers (m # ms)"

text \<open>\<^verbatim>\<open>gjson.Get\<close> along a path of member names and array indices, and the accessors of a
  result.\<close>

definition isIndex :: "string \<Rightarrow> bool" where
  "isIndex k \<longleftrightarrow> k \<noteq> [] \<and> list_all isDigit k"

fun member :: "string \<Rightarrow> json \<Rightarrow> json option" where
  "member k (JObj kvs) = map_of kvs k"
| "member k (JArr xs) =
     (if isIndex k \<and> parseDigits k < length xs then Some (xs ! parseDigits k) else None)"
| "member k _ = None"

fun gjsonGet :: "json \<Rightarrow> string list \<Rightarrow> json option" where
  "gjsonGet j [] = Some j"
| "gjsonGet j (k # ks) = (case member k j of None \<Rightarrow> None | Some v \<Rightarrow> gjsonGet v ks)"

definition gjsonExists :: "json option \<Rightarrow> bool" where
  "gjsonExists r \<longleftrightarrow> r \<noteq> None"

fun gjsonString :: "json option \<Rightarrow> string" where
  "gjsonString None = []"
| "gjsonString (Some JNull) = []"
| "gjsonString (Some (JBool b)) = (if b then ''true'' else ''false'')"
| "gjsonString (Some (JNum n)) = showInt n"
| "gjsonString (Some (JStr s)) = s"
| "gjsonString (Some j) = gjsonRaw j"

fun gjsonInt :: "json option \<Rightarrow> int" where
  "gjsonInt (Some (JBool b)) = (if b then 1 else 0)"
| "gjsonInt (Some (JNum n)) = n"
| "gjsonInt (Some (JStr s)) = (case parseInt s of Some n \<Rightarrow> n | None \<Rightarrow> 0)"
| "gjsonInt _ = 0"

fun gjsonIsArray :: "json option \<Rightarrow> bool" where
  "gjsonIsArray (Some (JArr xs)) = True"
| "gjsonIsArray _ = False"

fun gjsonArray :: "json option \<Rightarrow> json list" where
  "gjsonArray None = []"
| "gjsonArray (Some JNull) = []"
| "gjsonArray (Some (JArr xs)) = xs"
| "gjsonArray (Some j) = [j]"

text \<open>
  \<^verbatim>\<open>sjson.Set\<close>: an existing member or element is replaced in place, a new member is added
  at the end, a missing or scalar parent becomes an object (an array before a numeric
  name); a name that is no index into an array is an error. \<open>sjsonSetPath\<close> is \<open>None\<close> on an error;
  the callers drop the error and keep the text they had (\<open>sjsonSet\<close>).
\<close>

fun replaceMember :: "string \<Rightarrow> json \<Rightarrow> (string \<times> json) list \<Rightarrow> (string \<times> json) list" where
  "replaceMember k v [] = []"
| "replaceMember k v ((k', v') # kvs) =
     (if k' = k then (k, v) # kvs else (k', v') # replaceMember k v kvs)"

fun sjsonSetPath :: "json \<Rightarrow> string list \<Rightarrow> json \<Rightarrow> json option" where
  "sjsonSetPath j [] v = Some v"
| "sjsonSetPath j (k # ks) v =
     (case j of
        JObj kvs \<Rightarrow>
          (case map_of kvs k of
             Some c \<Rightarrow> map_option (\<lambda>c'. JObj (replaceMember k c' kvs)) (sjsonSetPath c ks v)
           | None \<Rightarrow> map_option (\<lambda>c'. JObj (kvs @ [(k, c')])) (sjsonSetPath JNull ks v))
      | JArr xs \<Rightarrow>
          (if isIndex k then
             (let i = parseDigits k in
              if i < length xs then map_option (\<lambda>c'. JArr (xs[i := c'])) (sjsonSetPath (xs ! i) ks v)
              else map_option (\<lambda>c'. JArr (xs @ replicate (i - length xs) JNull @ [c']))
                     (sjsonSetPath JNull ks v))
           else if k = ''-1'' then map_option (\<lambda>c'. JArr (xs @ [c'])) (sjsonSetPath JNull ks v)
           else None)
      | _ \<Rightarrow>
          (if isIndex k then
             map_option (\<lambda>c'. JArr (replicate (parseDigits k) JNull @ [c'])) (sjsonSetPath JNull ks v)
           else map_option (\<lambda>c'. JObj [(k, c')]) (sjsonSetPath JNull ks v)))"

definition sjsonSet :: "json \<Rightarrow> string list \<Rightarrow> json \<Rightarrow> json" where
  "sjsonSet j path v = (case sjsonSetPath j path v of Some j' \<Rightarrow> j' | None \<Rightarrow> j)"

text \<open>\<^verbatim>\<open>sjson.Delete\<close> of a member: the first member of that name goes; a path that leads
  nowhere changes nothing.\<close>

fun removeMember :: "string \<Rightarrow> (string \<times> json) list \<Rightarrow> (string \<times> json) list" where
  "removeMember k [] = []"
| "removeMember k ((k', v') # kvs) = (if k' = k then kvs else (k', v') # removeMember k kvs)"

fun sjsonDelete :: "json \<Rightarrow> string list \<Rightarrow> json" where
  "sjsonDelete j [] = j"
| "sjsonDelete j [k] = (case j of JObj kvs \<Rightarrow> JObj (removeMember k kvs) | _ \<Rightarrow> j)"
| "sjsonDelete j (k # ks) =
     (case j of
        JObj kvs \<Rightarrow>
          (case map_of kvs k of
             Some c \<Rightarrow> JObj (replaceMember k (sjsonDelete c ks) kvs)
           | None \<Rightarrow> j)
      | _ \<Rightarrow> j)"

section \<open>internal/cache/signature\_cache.go\<close>

text \<open>
  Time is explicit: \<^verbatim>\<open>time.Now()\<close> is a parameter \<open>now\<close>, in nanoseconds
  (the unit of \<^verbatim>\<open>time.Duration\<close>), and \<^verbatim>\<open>time.Since(t)\<close> is \<open>now - t\<close>.
  The package-level \<^verbatim>\<open>sync.Map\<close> is a map passed in and returned.
\<close>

record ThinkingEntry =
  ThinkingText :: string
  Signature :: string
  Timestamp :: int

type_synonym thinking_cache = "string \<rightharpoonup> ThinkingEntry"

definition Hour :: int where
  "Hour = 3600 * 1000000000"

definition ThinkingCacheTTL :: int where
  "ThinkingCacheTTL = 2 * Hour"

definition MinValidSignatureLen :: nat where
  "MinValidSignatureLen = 50"

definition ThinkingIDLen :: nat where
  "ThinkingIDLen = 32"

definition GenerateThinkingID :: "string \<Rightarrow> string" where
  "GenerateThinkingID thinkingText = take ThinkingIDLen (sha256_hex thinkingText)"

definition HasValidSignature :: "string \<Rightarrow> bool" where
  "HasValidSignature signature \<longleftrightarrow> signature \<noteq> [] \<and> length signature \<ge> MinValidSignatureLen"

definition CacheThinking :: "int \<Rightarrow> string \<Rightarrow> string \<Rightarrow> string \<Rightarrow> thinking_cache \<Rightarrow> thinking_cache" where
  "CacheThinking now thinkingID thinkingText signature cache =
     (if thinkingID = [] \<or> thinkingText = [] then cache
      else cache(thinkingID \<mapsto>
             \<lparr>ThinkingText = thinkingText, Signature = signature, Timestamp = now\<rparr>))"

definition GetCachedThinking :: "int \<Rightarrow> string \<Rightarrow> thinking_cache \<Rightarrow> ThinkingEntry option \<times> thinking_cache" where
  "GetCachedThinking now thinkingID cache =
     (if thinkingID = [] then (None, cache)
      else case cache thinkingID of
             None \<Rightarrow> (None, cache)
           | Some entry \<Rightarrow>
               if now - Timestamp entry > ThinkingCacheTTL then (None, cache(thinkingID := None))
               else (Some entry, cache))"

text \<open>The session-keyed signature cache of the same file: \<^verbatim>\<open>signatureCache\<close> maps a session
  id to a \<^verbatim>\<open>sessionCache\<close>, whose entries are keyed by \<^verbatim>\<open>hashText(text)\<close>.\<close>

record SignatureEntry =
  EntrySignature :: string
  EntryTimestamp :: int

type_synonym signature_cache = "string \<rightharpoonup> (string \<rightharpoonup> SignatureEntry)"

definition SignatureCacheTTL :: int where
  "SignatureCacheTTL = 2 * Hour"

definition SignatureTextHashLen :: nat where
  "SignatureTextHashLen = 16"

definition hashText :: "string \<Rightarrow> string" where
  "hashText text = take SignatureTextHashLen (sha256_hex text)"

definition CacheSignature :: "int \<Rightarrow> string \<Rightarrow> string \<Rightarrow> string \<Rightarrow> signature_cache \<Rightarrow> signature_cache" where
  "CacheSignature now sessionID text signature cache =
     (if sessionID = [] \<or> text = [] \<or> signature = [] then cache
      else if length signature < MinValidSignatureLen then cache
      else let sc = (case cache sessionID of None \<Rightarrow> Map.empty | Some sc \<Rightarrow> sc)
           in cache(sessionID \<mapsto>
                sc(hashText text \<mapsto> \<lparr>EntrySignature = signature, EntryTimestamp = now\<rparr>)))"

definition GetCachedSignature :: "int \<Rightarrow> string \<Rightarrow> string \<Rightarrow> signature_cache \<Rightarrow> string \<times> signature_cache" where
  "GetCachedSignature now sessionID text cache =
     (if sessionID = [] \<or> text = [] then ([], cache)
      else case cache sessionID of
             None \<Rightarrow> ([], cache)
           | Some sc \<Rightarrow>
               (case sc (hashText text) of
                  None \<Rightarrow> ([], cache)
                | Some entry \<Rightarrow>
                    if now - EntryTimestamp entry > SignatureCacheTTL
                    then ([], cache(sessionID \<mapsto> sc(hashText text := None)))
                    else (EntrySignature entry,
                          cache(sessionID \<mapsto>
                            sc(hashText text \<mapsto> entry\<lparr>EntryTimestamp := now\<rparr>)))))"

section \<open>The response translator (claude\_openai\_response.go)\<close>

text \<open>
  One line of the backend's event stream: \<open>Data j\<close> is a line that starts with \<^verbatim>\<open>data:\<close> and
  carries the JSON text \<open>j\<close> (a text that does not parse is \<open>JNull\<close>: gjson finds nothing in
  it), \<open>NoData\<close> is any other line.
\<close>

datatype sse_line = Data json | NoData

record ToolCallAccumulator =
  ID :: string
  Name :: string
  Arguments :: string

text \<open>The two \<^verbatim>\<open>strings.Builder\<close> fields \<^verbatim>\<open>Thinking\<close> and \<^verbatim>\<open>Signature\<close> of
  \<^verbatim>\<open>ThinkingAccumulator\<close>.\<close>

record ThinkingAccumulator =
  AccThinking :: string
  AccSignature :: string

text \<open>A Go map that may be nil is an optional map.\<close>

record ConvertAnthropicResponseToOpenAIParams =
  CreatedAt :: int
  ResponseID :: string
  FinishReason :: string
  ToolCallsAccumulator :: "(int \<rightharpoonup> ToolCallAccumulator) option"
  ThinkingAccumulators :: "(int \<rightharpoonup> ThinkingAccumulator) option"

definition newParams :: ConvertAnthropicResponseToOpenAIParams where
  "newParams =
     \<lparr>CreatedAt = 0, ResponseID = [], FinishReason = [],
      ToolCallsAccumulator = None, ThinkingAccumulators = None\<rparr>"

definition template :: json where
  "template =
     JObj [(''id'', JStr []), (''object'', JStr ''chat.completion.chunk''), (''created'', JNum 0),
           (''model'', JStr []),
           (''choices'',
              JArr [JObj [(''index'', JNum 0),
                          (''delta'', JObj [(''response_metadata'', JObj [])]),
                          (''finish_reason'', JNull)]])]"

definition mapAnthropicStopReasonToOpenAI :: "string \<Rightarrow> string" where
  "mapAnthropicStopReasonToOpenAI anthropicReason =
     (if anthropicReason = ''end_turn'' then ''stop''
      else if anthropicReason = ''tool_use'' then ''tool_calls''
      else if anthropicReason = ''max_tokens'' then ''length''
      else if anthropicReason = ''stop_sequence'' then ''stop''
      else ''stop'')"

definition lookupAcc :: "(int \<rightharpoonup> 'a) option \<Rightarrow> int \<Rightarrow> 'a option" where
  "lookupAcc m i = (case m of None \<Rightarrow> None | Some f \<Rightarrow> f i)"

definition makeIfNil :: "(int \<rightharpoonup> 'a) option \<Rightarrow> (int \<rightharpoonup> 'a)" where
  "makeIfNil m = (case m of None \<Rightarrow> Map.empty | Some f \<Rightarrow> f)"

definition closingContent :: "string \<Rightarrow> string" where
  "closingContent thinkingID =
     ''\<newline></think>\<newline>```plaintext:thinkId:'' @ thinkingID @ ''```\<newline>''"

definition contentPath :: "string list" where
  "contentPath = [''choices'', ''0'', ''delta'', ''content'']"

definition toolCallPath :: "string list \<Rightarrow> string list" where
  "toolCallPath p = [''choices'', ''0'', ''delta'', ''tool_calls'', ''0''] @ p"

text \<open>
  \<^verbatim>\<open>ConvertClaudeResponseToOpenAI\<close>. The state \<^verbatim>\<open>*param\<close> (nil before the first call) and the
  thinking cache are passed in and returned; \<open>now\<close> is the clock, in nanoseconds.
\<close>

definition ConvertClaudeResponseToOpenAI ::
  "int \<Rightarrow> thinking_cache \<Rightarrow> string \<Rightarrow> sse_line \<Rightarrow> ConvertAnthropicResponseToOpenAIParams option
     \<Rightarrow> json list \<times> ConvertAnthropicResponseToOpenAIParams \<times> thinking_cache" where
  "ConvertClaudeResponseToOpenAI now cache modelName rawJSON param =
     (let p = (case param of None \<Rightarrow> newParams | Some p \<Rightarrow> p) in
      case rawJSON of
        NoData \<Rightarrow> ([], p, cache)
      | Data root \<Rightarrow>
         (let eventType = gjsonString (gjsonGet root [''type'']);
              t0 = (if modelName \<noteq> [] then sjsonSet template [''model''] (JStr modelName) else template);
              t1 = (if ResponseID p \<noteq> [] then sjsonSet t0 [''id''] (JStr (ResponseID p)) else t0);
              t2 = (if CreatedAt p > 0 then sjsonSet t1 [''created''] (JNum (CreatedAt p)) else t1);
              index = gjsonInt (gjsonGet root [''index''])
          in
          if eventType = ''message_start'' then
            (case gjsonGet root [''message''] of
               None \<Rightarrow> ([t2], p, cache)
             | Some message \<Rightarrow>
                (let p1 = p\<lparr>ResponseID := gjsonString (gjsonGet message [''id'']),
                            CreatedAt := now div 1000000000\<rparr>;
                     t3 = sjsonSet t2 [''id''] (JStr (ResponseID p1));
                     t4 = sjsonSet t3 [''model''] (JStr modelName);
                     t5 = sjsonSet t4 [''created''] (JNum (CreatedAt p1));
                     t6 = sjsonSet t5 [''choices'', ''0'', ''delta'', ''role''] (JStr ''assistant'');
                     p2 = p1\<lparr>ToolCallsAccumulator := Some (makeIfNil (ToolCallsAccumulator p1)),
                             ThinkingAccumulators := Some (makeIfNil (ThinkingAccumulators p1))\<rparr>
                 in ([t6], p2, cache)))
          else if eventType = ''content_block_start'' then
            (case gjsonGet root [''content_block''] of
               None \<Rightarrow> ([], p, cache)
             | Some contentBlock \<Rightarrow>
                (let blockType = gjsonString (gjsonGet contentBlock [''type'']) in
                 if blockType = ''tool_use'' then
                   ([], p\<lparr>ToolCallsAccumulator :=
                            Some ((makeIfNil (ToolCallsAccumulator p))(index \<mapsto>
                              \<lparr>ID = gjsonString (gjsonGet contentBlock [''id'']),
                               Name = gjsonString (gjsonGet contentBlock [''name'']),
                               Arguments = []\<rparr>))\<rparr>, cache)
                 else if blockType = ''thinking'' then
                   ([sjsonSet t2 contentPath (JStr ''<think>\<newline>'')],
                    p\<lparr>ThinkingAccumulators :=
                        Some ((makeIfNil (ThinkingAccumulators p))(index \<mapsto>
                          \<lparr>AccThinking = [], AccSignature = []\<rparr>))\<rparr>, cache)
                 else ([], p, cache)))
          else if eventType = ''content_block_delta'' then
            (case gjsonGet root [''delta''] of
               None \<Rightarrow> ([], p, cache)
             | Some delta \<Rightarrow>
                (let deltaType = gjsonString (gjsonGet delta [''type'']) in
                 if deltaType = ''text_delta'' then
                   (case gjsonGet delta [''text''] of
                      None \<Rightarrow> ([], p, cache)
                    | Some text \<Rightarrow> ([sjsonSet t2 contentPath (JStr (gjsonString (Some text)))], p, cache))
                 else if deltaType = ''thinking_delta'' then
                   (case gjsonGet delta [''thinking''] of
                      None \<Rightarrow> ([], p, cache)
                    | Some thinking \<Rightarrow>
                       (let originalThinkingText = gjsonString (Some thinking);
                            p1 = (case lookupAcc (ThinkingAccumulators p) index of
                                    None \<Rightarrow> p
                                  | Some accumulator \<Rightarrow>
                                      p\<lparr>ThinkingAccumulators :=
                                          Some ((makeIfNil (ThinkingAccumulators p))(index \<mapsto>
                                            accumulator\<lparr>AccThinking :=
                                              AccThinking accumulator @ originalThinkingText\<rparr>))\<rparr>)
                        in ([sjsonSet t2 contentPath (JStr originalThinkingText)], p1, cache)))
                 else if deltaType = ''signature_delta'' then
                   (case gjsonGet delta [''signature''] of
                      None \<Rightarrow> ([], p, cache)
                    | Some signature \<Rightarrow>
                       (case lookupAcc (ThinkingAccumulators p) index of
                          None \<Rightarrow> ([], p, cache)
                        | Some accumulator \<Rightarrow>
                            ([], p\<lparr>ThinkingAccumulators :=
                                     Some ((makeIfNil (ThinkingAccumulators p))(index \<mapsto>
                                       accumulator\<lparr>AccSignature :=
                                         AccSignature accumulator @ gjsonString (Some signature)\<rparr>))\<rparr>,
                             cache)))
                 else if deltaType = ''input_json_delta'' then
                   (case gjsonGet delta [''partial_json''] of
                      None \<Rightarrow> ([], p, cache)
                    | Some partialJSON \<Rightarrow>
                       (case lookupAcc (ToolCallsAccumulator p) index of
                          None \<Rightarrow> ([], p, cache)
                        | Some accumulator \<Rightarrow>
                            ([], p\<lparr>ToolCallsAccumulator :=
                                     Some ((makeIfNil (ToolCallsAccumulator p))(index \<mapsto>
                                       accumulator\<lparr>Arguments :=
                                         Arguments accumulator @ gjsonString (Some partialJSON)\<rparr>))\<rparr>,
                             cache)))
                 else ([], p, cache)))
          else if eventType = ''content_block_stop'' then
            (case lookupAcc (ToolCallsAccumulator p) index of
               Some accumulator \<Rightarrow>
                (let arguments = (if Arguments accumulator = [] then ''{}'' else Arguments accumulator);
                     t3 = sjsonSet t2 (toolCallPath [''index'']) (JNum index);
                     t4 = sjsonSet t3 (toolCallPath [''id'']) (JStr (ID accumulator));
                     t5 = sjsonSet t4 (toolCallPath [''type'']) (JStr ''function'');
                     t6 = sjsonSet t5 (toolCallPath [''function'', ''name'']) (JStr (Name accumulator));
                     t7 = sjsonSet t6 (toolCallPath [''function'', ''arguments'']) (JStr arguments)
                 in ([t7],
                     p\<lparr>ToolCallsAccumulator :=
                         Some ((makeIfNil (ToolCallsAccumulator p))(index := None))\<rparr>, cache))
             | None \<Rightarrow>
                (case lookupAcc (ThinkingAccumulators p) index of
                   Some accumulator \<Rightarrow>
                    (let thinkingText = AccThinking accumulator;
                         signatureText = AccSignature accumulator;
                         thinkingID = GenerateThinkingID thinkingText;
                         cache' = (if thinkingText \<noteq> []
                                   then CacheThinking now thinkingID thinkingText signatureText cache
                                   else cache)
                     in ([sjsonSet t2 contentPath (JStr (closingContent thinkingID))],
                         p\<lparr>ThinkingAccumulators :=
                             Some ((makeIfNil (ThinkingAccumulators p))(index := None))\<rparr>, cache'))
                 | None \<Rightarrow> ([], p, cache)))
          else if eventType = ''message_delta'' then
            (let stopReason = (case gjsonGet root [''delta''] of
                                 None \<Rightarrow> None
                               | Some delta \<Rightarrow> gjsonGet delta [''stop_reason'']);
                 p1 = (case stopReason of
                         None \<Rightarrow> p
                       | Some r \<Rightarrow> p\<lparr>FinishReason := mapAnthropicStopReasonToOpenAI (gjsonString (Some r))\<rparr>);
                 t3 = (case stopReason of
                         None \<Rightarrow> t2
                       | Some r \<Rightarrow> sjsonSet t2 [''choices'', ''0'', ''finish_reason'']
                                     (JStr (FinishReason p1)));
                 t4 = (case gjsonGet root [''usage''] of
                         None \<Rightarrow> t3
                       | Some usage \<Rightarrow>
                          sjsonSet
                            (sjsonSet
                              (sjsonSet
                                (sjsonSet t3 [''usage'', ''input_tokens'']
                                   (JNum (gjsonInt (gjsonGet usage [''input_tokens'']))))
                                [''usage'', ''output_tokens'']
                                (JNum (gjsonInt (gjsonGet usage [''output_tokens'']))))
                              [''usage'', ''cache_read_input_tokens'']
                              (JNum (gjsonInt (gjsonGet usage [''cache_read_input_tokens'']))))
                            [''usage'', ''cache_creation_input_tokens'']
                            (JNum (gjsonInt (gjsonGet usage [''cache_creation_input_tokens'']))))
             in ([t4], p1, cache))
          else if eventType = ''message_stop'' then ([], p, cache)
          else if eventType = ''ping'' then ([], p, cache)
          else if eventType = ''error'' then
            (case gjsonGet root [''error''] of
               None \<Rightarrow> ([], p, cache)
             | Some errorData \<Rightarrow>
                ([sjsonSet
                    (sjsonSet (JObj [(''error'', JObj [(''message'', JStr []), (''type'', JStr [])])])
                       [''error'', ''message''] (JStr (gjsonString (gjsonGet errorData [''message'']))))
                    [''error'', ''type''] (JStr (gjsonString (gjsonGet errorData [''type''])))],
                 p, cache))
          else ([], p, cache)))"

text \<open>The caller's loop over the lines of one response: the chunks of every step, in order.\<close>

fun convertStream ::
  "int \<Rightarrow> thinking_cache \<Rightarrow> string \<Rightarrow> ConvertAnthropicResponseToOpenAIParams option \<Rightarrow> sse_line list
     \<Rightarrow> json list list \<times> ConvertAnthropicResponseToOpenAIParams option \<times> thinking_cache" where
  "convertStream now cache modelName param [] = ([], param, cache)"
| "convertStream now cache modelName param (l # ls) =
     (case ConvertClaudeResponseToOpenAI now cache modelName l param of
        (out, p, cache') \<Rightarrow>
          (case convertStream now cache' modelName (Some p) ls of
             (outs, p', cache'') \<Rightarrow> (out # outs, p', cache'')))"

text \<open>The events of the backend, as the translator reads them.\<close>

definition content_block_start_thinking :: "int \<Rightarrow> sse_line" where
  "content_block_start_thinking i =
     Data (JObj [(''type'', JStr ''content_block_start''), (''index'', JNum i),
                 (''content_block'', JObj [(''type'', JStr ''thinking''), (''thinking'', JStr [])])])"

definition thinking_delta :: "int \<Rightarrow> string \<Rightarrow> sse_line" where
  "thinking_delta i s =
     Data (JObj [(''type'', JStr ''content_block_delta''), (''index'', JNum i),
                 (''delta'', JObj [(''type'', JStr ''thinking_delta''), (''thinking'', JStr s)])])"

definition signature_delta :: "int \<Rightarrow> string \<Rightarrow> sse_line" where
  "signature_delta i s =
     Data (JObj [(''type'', JStr ''content_block_delta''), (''index'', JNum i),
                 (''delta'', JObj [(''type'', JStr ''signature_delta''), (''signature'', JStr s)])])"

definition text_delta :: "int \<Rightarrow> string \<Rightarrow> sse_line" where
  "text_delta i s =
     Data (JObj [(''type'', JStr ''content_block_delta''), (''index'', JNum i),
                 (''delta'', JObj [(''type'', JStr ''text_delta''), (''text'', JStr s)])])"

definition content_block_stop :: "int \<Rightarrow> sse_line" where
  "content_block_stop i = Data (JObj [(''type'', JStr ''content_block_stop''), (''index'', JNum i)])"

text \<open>A chunk that carries only content, with the id and the creation time of the state \<open>p\<close>.\<close>

definition contentChunkFor :: "ConvertAnthropicResponseToOpenAIParams \<Rightarrow> string \<Rightarrow> string \<Rightarrow> json" where
  "contentChunkFor p modelName content =
     JObj [(''id'', JStr (ResponseID p)), (''object'', JStr ''chat.completion.chunk''),
           (''created'', JNum (if CreatedAt p > 0 then CreatedAt p else 0)),
           (''model'', JStr modelName),
           (''choices'',
              JArr [JObj [(''index'', JNum 0),
                          (''delta'', JObj [(''response_metadata'', JObj []), (''content'', JStr content)]),
                          (''finish_reason'', JNull)]])]"

definition chunkContents :: "json list list \<Rightarrow> string list" where
  "chunkContents outs = map (\<lambda>c. gjsonString (gjsonGet c contentPath)) (concat outs)"

definition scenarioA :: "string \<Rightarrow> sse_line list" where
  "scenarioA S =
     [content_block_start_thinking 0, thinking_delta 0 ''Let me '', thinking_delta 0 ''think.'',
      signature_delta 0 S, content_block_stop 0]"

text \<open>The alphabet of a signature: base64, standard or URL-safe, with padding.\<close>

definition isBase64 :: "char \<Rightarrow> bool" where
  "isBase64 c \<longleftrightarrow>
     c \<in> set ''ABCDEFGHIJKLMNOPQRSTUVWXYZabcdefghijklmnopqrstuvwxyz0123456789+/=-_''"

section \<open>The request translator (claude\_openai\_request.go)\<close>

text \<open>
  \<^verbatim>\<open>extractThinkingFromContent\<close>. The parts are the \<^verbatim>\<open>map[string]interface{}\<close> values of the
  source, as JSON objects. The function reads the thinking cache (and drops an expired
  entry it meets), so it takes the time and the cache and returns the cache.
\<close>

definition thinkingPart :: "string \<Rightarrow> string option \<Rightarrow> json" where
  "thinkingPart thinking signature =
     (case signature of
        Some sig \<Rightarrow> JObj [(''type'', JStr ''thinking''), (''thinking'', JStr thinking),
                            (''signature'', JStr sig)]
      | None \<Rightarrow> JObj [(''type'', JStr ''thinking''), (''thinking'', JStr thinking)])"

definition textPart :: "string \<Rightarrow> json" where
  "textPart text = JObj [(''type'', JStr ''text''), (''text'', JStr text)]"

text \<open>The two tails every branch shares: the remaining text after the
  \<^verbatim>\<open><think>\<close> blocks and the thinkId markers are cut out, and the optional second part.\<close>

definition remainingAfterThink :: "string \<Rightarrow> string" where
  "remainingAfterThink text = TrimSpace (thinkIdRemoveAll (thinkTagRemoveAll text))"

definition withRemaining :: "json \<Rightarrow> string \<Rightarrow> json list" where
  "withRemaining part remainingText =
     (if remainingText \<noteq> [] then [part, textPart remainingText] else [part])"

text \<open>Lines 196--249: the legacy two-block format, else the cleaned text alone.\<close>

definition escapedFence :: string where
  "escapedFence = [CHR 0x5C, CHR 0x60, CHR 0x5C, CHR 0x60, CHR 0x5C, CHR 0x60]"

definition extractLegacy :: "string \<Rightarrow> json list" where
  "extractLegacy text =
     (case (legacyThinkingFind text, legacySignatureFind text) of
        (Some (p1, thinkingText, r1), Some (p2, signatureText, r2)) \<Rightarrow>
          withRemaining (thinkingPart thinkingText (Some signatureText))
            (TrimSpace (legacySignatureRemoveAll (legacyThinkingRemoveAll text)))
      | _ \<Rightarrow>
          (let cleanText =
                 TrimSpace (legacySignatureRemoveAll (legacyThinkingRemoveAll
                   (thinkIdRemoveAll (thinkTagRemoveAll text))))
           in if cleanText = [] then [] else [textPart cleanText]))"

text \<open>Lines 158--193: the fallback on a cache miss or an invalid signature.\<close>

definition extractFallback :: "string \<Rightarrow> json list" where
  "extractFallback text =
     (case thinkTagFind text of
        Some (pre, g, post) \<Rightarrow>
          withRemaining (thinkingPart (TrimSpace (ReplaceAll g escapedFence fence)) None)
            (remainingAfterThink text)
      | None \<Rightarrow> extractLegacy text)"

definition extractThinkingFromContent :: "int \<Rightarrow> thinking_cache \<Rightarrow> string \<Rightarrow> json list \<times> thinking_cache" where
  "extractThinkingFromContent now cache text =
     (case thinkIdFind text of
        Some thinkingID \<Rightarrow>
          (case GetCachedThinking now thinkingID cache of
             (Some entry, cache') \<Rightarrow>
               if HasValidSignature (Signature entry)
               then (withRemaining (thinkingPart (ThinkingText entry) (Some (Signature entry)))
                       (remainingAfterThink text), cache')
               else (extractFallback text, cache')
           | (None, cache') \<Rightarrow> (extractFallback text, cache'))
      | None \<Rightarrow> (extractLegacy text, cache))"

text \<open>\<^verbatim>\<open>ensureAssistantThinkingBlock\<close>, on the request built so far.\<close>

fun lastAssistant :: "json list \<Rightarrow> json option" where
  "lastAssistant [] = None"
| "lastAssistant (m # ms) =
     (case lastAssistant ms of
        Some a \<Rightarrow> Some a
      | None \<Rightarrow> if gjsonString (gjsonGet m [''role'']) = ''assistant'' then Some m else None)"

definition ensureAssistantThinkingBlock :: "json \<Rightarrow> json" where
  "ensureAssistantThinkingBlock requestJSON =
     (let thinkingType = gjsonString (gjsonGet requestJSON [''thinking'', ''type''])
      in if thinkingType \<noteq> ''enabled'' then requestJSON
      else
        (let messagesResult = gjsonGet requestJSON [''messages'']
         in if \<not> gjsonIsArray messagesResult \<or> length (gjsonArray messagesResult) = 0
            then requestJSON
            else
              (case lastAssistant (gjsonArray messagesResult) of
                 None \<Rightarrow> requestJSON
               | Some lastAssistantMsg \<Rightarrow>
                   (let content = gjsonGet lastAssistantMsg [''content'']
                    in if \<not> gjsonIsArray content \<or> length (gjsonArray content) = 0
                       then requestJSON
                       else
                         (let firstContentType =
                                gjsonString (gjsonGet (hd (gjsonArray content)) [''type''])
                          in if firstContentType = ''thinking''
                                \<or> firstContentType = ''redacted_thinking''
                             then requestJSON
                             else sjsonDelete requestJSON [''thinking''])))))"

section \<open>The thinking configuration (internal/thinking)\<close>

text \<open>
  \<^verbatim>\<open>ThinkingConfig\<close> and its modes. The declarations are not among the sources; the code
  read here fixes what is used of them: \<^verbatim>\<open>ModeBudget\<close> is the zero value of the mode (the
  empty \<^verbatim>\<open>ThinkingConfig{}\<close> is tested with \<^verbatim>\<open>Mode == ModeBudget && Budget == 0\<close>), and a level
  is a string.
\<close>

datatype ThinkingMode = ModeBudget | ModeLevel | ModeNone | ModeAuto

record ThinkingConfig =
  Mode :: ThinkingMode
  Budget :: int
  Level :: string
  Effort :: string
  Speed :: string


















text \<open>
  The registry's \<^verbatim>\<open>ModelInfo\<close> and \<^verbatim>\<open>ThinkingSupport\<close> (another package, not among the
  sources), with the fields this code reads: \<^verbatim>\<open>ID\<close>, \<^verbatim>\<open>UserDefined\<close>, \<^verbatim>\<open>Thinking\<close> (nil for a
  model without thinking), \<^verbatim>\<open>MaxCompletionTokens\<close>, and \<^verbatim>\<open>Thinking.Min\<close>,
  \<^verbatim>\<open>Thinking.DynamicAllowed\<close>. A nil \<^verbatim>\<open>*ModelInfo\<close> is \<open>None\<close>.
\<close>

record ThinkingSupport =
  MinBudget :: int
  MaxBudget :: int
  ZeroAllowed :: bool
  DynamicAllowed :: bool

record ModelInfo =
  ModelID :: string
  UserDefined :: bool
  Thinking :: "ThinkingSupport option"
  MaxCompletionTokens :: int

text \<open>A request body is \<open>None\<close> when it is empty or no valid JSON, else its tree. An error is
  its message.\<close>

type_synonym body = "json option"

type_synonym applier = "body \<Rightarrow> ThinkingConfig \<Rightarrow> ModelInfo option \<Rightarrow> body \<times> string option"

definition validBody :: "body \<Rightarrow> json" where
  "validBody body = (case body of None \<Rightarrow> JObj [] | Some j \<Rightarrow> j)"


subsection \<open>internal/thinking/provider/claude/apply.go\<close>

definition IsUserDefinedModel :: "ModelInfo option \<Rightarrow> bool" where
  "IsUserDefinedModel modelInfo = (case modelInfo of None \<Rightarrow> True | Some mi \<Rightarrow> UserDefined mi)"

definition isSpeedOnly :: "ThinkingConfig \<Rightarrow> bool" where
  "isSpeedOnly config \<longleftrightarrow>
     Speed config \<noteq> [] \<and> Effort config = [] \<and> Mode config = ModeBudget \<and> Budget config = 0
     \<and> Level config = []"

definition isEffortOnly :: "ThinkingConfig \<Rightarrow> bool" where
  "isEffortOnly config \<longleftrightarrow>
     Effort config \<noteq> [] \<and> Mode config = ModeBudget \<and> Budget config = 0 \<and> Level config = []"

definition applySpeed :: "json \<Rightarrow> ThinkingConfig \<Rightarrow> json" where
  "applySpeed body config =
     (if Speed config = [] then body else sjsonSet body [''speed''] (JStr (Speed config)))"

definition applyEffort :: "json \<Rightarrow> ThinkingConfig \<Rightarrow> json" where
  "applyEffort body config =
     (if Effort config = [] then body
      else sjsonSet body [''output_config'', ''effort''] (JStr (Effort config)))"

definition effectiveMaxTokens :: "json \<Rightarrow> ModelInfo option \<Rightarrow> int \<times> bool" where
  "effectiveMaxTokens body modelInfo =
     (let maxTok = gjsonGet body [''max_tokens''] in
      if gjsonExists maxTok \<and> gjsonInt maxTok > 0 then (gjsonInt maxTok, False)
      else case modelInfo of
             Some mi \<Rightarrow> if MaxCompletionTokens mi > 0 then (MaxCompletionTokens mi, True) else (0, False)
           | None \<Rightarrow> (0, False))"

definition normalizeClaudeBudget :: "json \<Rightarrow> int \<Rightarrow> ModelInfo option \<Rightarrow> json" where
  "normalizeClaudeBudget body budgetTokens modelInfo =
     (if budgetTokens \<le> 0 then body
      else
        (let (effectiveMax, setDefaultMax) = effectiveMaxTokens body modelInfo;
             body1 = (if setDefaultMax \<and> effectiveMax > 0
                      then sjsonSet body [''max_tokens''] (JNum effectiveMax) else body);
             adjustedBudget = (if effectiveMax > 0 \<and> budgetTokens \<ge> effectiveMax
                               then effectiveMax - 1 else budgetTokens);
             minBudget = (case modelInfo of
                            Some mi \<Rightarrow> (case Thinking mi of Some t \<Rightarrow> MinBudget t | None \<Rightarrow> 0)
                          | None \<Rightarrow> 0)
         in if minBudget > 0 \<and> adjustedBudget > 0 \<and> adjustedBudget < minBudget then body1
            else if adjustedBudget \<noteq> budgetTokens
            then sjsonSet body1 [''thinking'', ''budget_tokens''] (JNum adjustedBudget)
            else body1))"

definition applyCompatibleClaude :: "body \<Rightarrow> ThinkingConfig \<Rightarrow> body \<times> string option" where
  "applyCompatibleClaude body0 config =
     (let body = validBody body0 in
      if isSpeedOnly config then (Some (applySpeed body config), None)
      else if isEffortOnly config then (Some (applySpeed (applyEffort body config) config), None)
      else if Mode config \<noteq> ModeBudget \<and> Mode config \<noteq> ModeNone \<and> Mode config \<noteq> ModeAuto
      then (Some (applySpeed body config), None)
      else if Mode config = ModeNone then
        (Some (applySpeed (applyEffort
           (sjsonDelete (sjsonSet body [''thinking'', ''type''] (JStr ''disabled''))
              [''thinking'', ''budget_tokens'']) config) config), None)
      else if Mode config = ModeAuto then
        (Some (applySpeed (applyEffort
           (sjsonDelete (sjsonSet body [''thinking'', ''type''] (JStr ''adaptive''))
              [''thinking'', ''budget_tokens'']) config) config), None)
      else
        (Some (applySpeed (applyEffort
           (sjsonSet (sjsonSet body [''thinking'', ''type''] (JStr ''enabled''))
              [''thinking'', ''budget_tokens''] (JNum (Budget config))) config) config), None))"

definition Apply :: applier where
  "Apply body0 config modelInfo =
     (if IsUserDefinedModel modelInfo then applyCompatibleClaude body0 config
      else case modelInfo of
        None \<Rightarrow> (body0, None)
      | Some mi \<Rightarrow>
         (case Thinking mi of
            None \<Rightarrow> (body0, None)
          | Some ts \<Rightarrow>
             if isSpeedOnly config then (Some (applySpeed (validBody body0) config), None)
             else if isEffortOnly config
             then (Some (applySpeed (applyEffort (validBody body0) config) config), None)
             else if Mode config \<noteq> ModeBudget \<and> Mode config \<noteq> ModeNone \<and> Mode config \<noteq> ModeAuto
             then (body0, None)
             else
               (let body = validBody body0 in
                if Mode config = ModeNone \<or> Budget config = 0 then
                  (Some (applySpeed (applyEffort
                     (sjsonDelete (sjsonSet body [''thinking'', ''type''] (JStr ''disabled''))
                        [''thinking'', ''budget_tokens'']) config) config), None)
                else if Mode config = ModeAuto \<and> DynamicAllowed ts then
                  (Some (applySpeed (applyEffort
                     (sjsonDelete (sjsonSet body [''thinking'', ''type''] (JStr ''adaptive''))
                        [''thinking'', ''budget_tokens'']) config) config), None)
                else
                  (let r0 = sjsonSet body [''thinking'', ''type''] (JStr ''enabled'');
                       r1 = (if Budget config > 0
                             then normalizeClaudeBudget
                                    (sjsonSet r0 [''thinking'', ''budget_tokens''] (JNum (Budget config)))
                                    (Budget config) modelInfo
                             else sjsonDelete r0 [''thinking'', ''budget_tokens''])
                   in (Some (applySpeed (applyEffort r1 config) config), None)))))"

subsection \<open>internal/thinking/apply.go: the extractors and ApplyThinking\<close>















text \<open>Inputs of the repository's own test \<^verbatim>\<open>TestAssistantWithCachedThinking\<close>.\<close>

definition test_thinkingID :: string where
  "test_thinkingID = ''abc123def456''"

definition test_thinkingText :: string where
  "test_thinkingText = ''Let me analyze this carefully...''"

definition test_signature :: string where
  "test_signature = ''dGVzdF9zaWduYXR1cmVfZnJvbV9jbGF1ZGVfYXBpXzEyMzQ1Njc4OTA=''"

text \<open>A client message as the response translator streams it (thinking text \<open>  abc \<close>, then the
  answer \<open>Hello\<close>), and two requests as \<^verbatim>\<open>ConvertOpenAIRequestToClaude\<close> builds them for
  \<^verbatim>\<open>reasoning_effort: "high"\<close>: the one of \<^verbatim>\<open>TestThinkingEnabledAssistantMessageFix\<close>, and one
  whose assistant message had the empty string as content.\<close>

definition fallback_message :: string where
  "fallback_message =
     ''<think>\<newline>  abc \<newline></think>\<newline>```plaintext:thinkId:ba7816bf8f01cfea414140de5dae2223```\<newline>Hello''"

definition fix_assistant :: json where
  "fix_assistant =
     JObj [(''role'', JStr ''assistant''),
           (''content'', JArr [JObj [(''type'', JStr ''text''), (''text'', JStr ''I will test token usage'')],
                               JObj [(''type'', JStr ''tool_use''), (''id'', JStr ''toolu_123''),
                                     (''name'', JStr ''search_vault_smart''),
                                     (''input'', JObj [(''query'', JStr ''token usage'')])]])]"

definition fix_members :: "(string \<times> json) list" where
  "fix_members =
     [(''model'', JStr ''claude-sonnet-4-5-20250929''), (''max_tokens'', JNum 64000),
      (''messages'',
         JArr [JObj [(''role'', JStr ''user''),
                     (''content'', JArr [JObj [(''type'', JStr ''text''), (''text'', JStr ''test token usage'')]])],
               fix_assistant]),
      (''thinking'', JObj [(''type'', JStr ''enabled''), (''budget_tokens'', JNum 24576)]),
      (''temperature'', JNum 1), (''stream'', JBool True)]"

definition empty_content_request :: json where
  "empty_content_request =
     JObj [(''model'', JStr ''claude-sonnet-4-5-20250929''), (''max_tokens'', JNum 64000),
           (''messages'',
              JArr [JObj [(''role'', JStr ''user''),
                          (''content'', JArr [JObj [(''type'', JStr ''text''), (''text'', JStr ''Hello'')]])],
                    JObj [(''role'', JStr ''assistant''), (''content'', JArr [])]]),
           (''thinking'', JObj [(''type'', JStr ''enabled''), (''budget_tokens'', JNum 24576)]),
           (''temperature'', JNum 1), (''stream'', JBool True)]"

text \<open>
  Requests and an environment on which to run the applier and \<^verbatim>\<open>ApplyThinking\<close>: a Claude request
  with an optional \<^verbatim>\<open>max_tokens\<close> and an enabled thinking budget; a registry of two models, one
  with thinking support (budgets 1024 to 128000, default \<^verbatim>\<open>max_tokens\<close> 64000) and one without.
  Modelled from the spec: \<open>ParseSuffix_paren\<close> is the suffix grammar \<^verbatim>\<open><base>(<token>)\<close>. In
  \<open>example_deps\<close> the applier table holds the Claude applier under \<^verbatim>\<open>claude\<close> (its \<^verbatim>\<open>init\<close>), the
  validation returns the configuration it is given, and stripping deletes the \<^verbatim>\<open>thinking\<close> member
  of the body.
\<close>

definition claudeRequest :: "int option \<Rightarrow> int \<Rightarrow> json" where
  "claudeRequest maxTokens budget =
     JObj ((case maxTokens of Some m \<Rightarrow> [(''max_tokens'', JNum m)] | None \<Rightarrow> []) @
           [(''thinking'', JObj [(''type'', JStr ''enabled''), (''budget_tokens'', JNum budget)])])"

definition thinking_model :: ModelInfo where
  "thinking_model =
     \<lparr>ModelID = ''claude-sonnet-4-5'', UserDefined = False,
      Thinking = Some \<lparr>MinBudget = 1024, MaxBudget = 128000, ZeroAllowed = True,
                        DynamicAllowed = False\<rparr>,
      MaxCompletionTokens = 64000\<rparr>"





section \<open>Facts about the library functions\<close>

lemma length_sha256_hex: "length (sha256_hex s) = 64"
  by (simp add: sha256_hex_def hex32_def split: prod.splits)

lemma hexdigit_hex: "isHexLower (hexdigit n)"
proof -
  have "n mod 16 < length ''0123456789abcdef''" by simp
  then have "''0123456789abcdef'' ! (n mod 16) \<in> set ''0123456789abcdef''"
    by (rule nth_mem)
  then show ?thesis by (simp only: hexdigit_def isHexLower_def)
qed

lemma hex32_hex: "\<forall>c \<in> set (hex32 w). isHexLower c"
  by (simp add: hex32_def hexdigit_hex)

lemma sha256_hex_hex: "\<forall>c \<in> set (sha256_hex s). isHexLower c"
  using hex32_hex by (auto simp: sha256_hex_def split: prod.splits)

lemma length_GenerateThinkingID: "length (GenerateThinkingID t) = 32"
  by (simp add: GenerateThinkingID_def ThinkingIDLen_def length_sha256_hex)

lemma GenerateThinkingID_nonempty: "GenerateThinkingID t \<noteq> []"
  using length_GenerateThinkingID [of t] by auto

lemma GenerateThinkingID_hex: "\<forall>c \<in> set (GenerateThinkingID t). isHexLower c"
  using sha256_hex_hex [of t] by (auto simp: GenerateThinkingID_def dest: in_set_takeD)

lemma HasValidSignature_test_signature: "HasValidSignature test_signature"
  by (simp add: HasValidSignature_def test_signature_def MinValidSignatureLen_def)

lemma matchThinkIdAt_nonempty: "matchThinkIdAt s = Some (h, rest) \<Longrightarrow> h \<noteq> []"
  by (auto simp: matchThinkIdAt_def Let_def split: if_splits)

lemma thinkIdFind_nonempty: "thinkIdFind s = Some h \<Longrightarrow> h \<noteq> []"
proof (induction s)
  case Nil
  then show ?case by simp
next
  case (Cons c cs)
  then show ?case
    by (auto split: option.splits dest: matchThinkIdAt_nonempty)
qed

section \<open>The thinking cache\<close>

lemma GetCachedThinking_hit_keeps_cache:
  "GetCachedThinking now thinkingID cache = (Some e, cache') \<Longrightarrow>
     cache' = cache \<and> cache thinkingID = Some e"
  by (auto simp: GetCachedThinking_def split: if_splits option.splits)

lemma GetCachedSignature_refreshes:
  assumes "sessionID \<noteq> []" "text \<noteq> []" "cache sessionID = Some sc"
    and "sc (hashText text) = Some entry"
    and "now - EntryTimestamp entry \<le> SignatureCacheTTL"
  shows "GetCachedSignature now sessionID text cache =
           (EntrySignature entry,
            cache(sessionID \<mapsto> sc(hashText text \<mapsto> entry\<lparr>EntryTimestamp := now\<rparr>)))"
  using assms by (simp add: GetCachedSignature_def)

text \<open>
  C3 (as amended). For every non-empty text \<open>T\<close> and every signature \<open>S\<close> (valid or not):
  \<^verbatim>\<open>GetCachedThinking(GenerateThinkingID(T))\<close> at a time \<open>now'\<close> no more than the TTL after
  \<^verbatim>\<open>CacheThinking(GenerateThinkingID(T), T, S)\<close> at time \<open>now\<close> returns the entry with text \<open>T\<close>,
  signature \<open>S\<close> and timestamp \<open>now\<close>; at a time more than the TTL later, with no access in
  between, it returns nil. An empty text is never stored.
\<close>

theorem CacheThinking_then_GetCachedThinking:
  assumes "T \<noteq> []"
  shows "(now' - now \<le> ThinkingCacheTTL \<longrightarrow>
            fst (GetCachedThinking now' (GenerateThinkingID T)
                   (CacheThinking now (GenerateThinkingID T) T S cache))
              = Some \<lparr>ThinkingText = T, Signature = S, Timestamp = now\<rparr>)
       \<and> (now' - now > ThinkingCacheTTL \<longrightarrow>
            fst (GetCachedThinking now' (GenerateThinkingID T)
                   (CacheThinking now (GenerateThinkingID T) T S cache)) = None)"
  using assms GenerateThinkingID_nonempty [of T]
  by (simp add: CacheThinking_def GetCachedThinking_def)

theorem CacheThinking_then_GetCachedThinking_witness:
  "fst (GetCachedThinking (2 * Hour) (GenerateThinkingID test_thinkingText)
          (CacheThinking 0 (GenerateThinkingID test_thinkingText) test_thinkingText test_signature
             Map.empty))
     = Some \<lparr>ThinkingText = test_thinkingText, Signature = test_signature, Timestamp = 0\<rparr>
   \<and> fst (GetCachedThinking (2 * Hour + 1) (GenerateThinkingID test_thinkingText)
          (CacheThinking 0 (GenerateThinkingID test_thinkingText) test_thinkingText test_signature
             Map.empty)) = None"
proof -
  have ne: "test_thinkingText \<noteq> []" by (simp add: test_thinkingText_def)
  have a: "2 * Hour - 0 \<le> ThinkingCacheTTL" by (simp add: ThinkingCacheTTL_def)
  have b: "2 * Hour + 1 - 0 > ThinkingCacheTTL" by (simp add: ThinkingCacheTTL_def)
  from CacheThinking_then_GetCachedThinking [OF ne, of "2 * Hour" 0 test_signature Map.empty] a
  have 1: "fst (GetCachedThinking (2 * Hour) (GenerateThinkingID test_thinkingText)
          (CacheThinking 0 (GenerateThinkingID test_thinkingText) test_thinkingText test_signature
             Map.empty))
     = Some \<lparr>ThinkingText = test_thinkingText, Signature = test_signature, Timestamp = 0\<rparr>"
    by blast
  from CacheThinking_then_GetCachedThinking [OF ne, of "2 * Hour + 1" 0 test_signature Map.empty] b
  have 2: "fst (GetCachedThinking (2 * Hour + 1) (GenerateThinkingID test_thinkingText)
          (CacheThinking 0 (GenerateThinkingID test_thinkingText) test_thinkingText test_signature
             Map.empty)) = None"
    by blast
  from 1 2 show ?thesis by (rule conjI)
qed

text \<open>
  C3 as stated fails at the empty text: \<^verbatim>\<open>CacheThinking\<close> returns at its guard
  \<^verbatim>\<open>thinkingText == ""\<close> without storing, so the lookup that follows finds nothing, although
  the signature is valid.
\<close>

theorem CacheThinking_empty_text_counterexample:
  "HasValidSignature test_signature
   \<and> fst (GetCachedThinking 0 (GenerateThinkingID [])
          (CacheThinking 0 (GenerateThinkingID []) [] test_signature Map.empty)) = None"
  by (simp add: HasValidSignature_test_signature CacheThinking_def GetCachedThinking_def)

text \<open>
  C4. \<^verbatim>\<open>GetCachedThinking\<close> does not refresh the timestamp on a hit. An entry stored at time 0
  and read (a hit) one hour later is gone one nanosecond after the TTL counted from the
  store, although its last access was only an hour before. (\<^verbatim>\<open>GetCachedSignature\<close>, in the
  same file, does refresh: lemma \<open>GetCachedSignature_refreshes\<close>.)
\<close>

theorem GetCachedThinking_no_sliding_expiration:
  "(let c0 = CacheThinking 0 test_thinkingID test_thinkingText test_signature Map.empty;
        (r1, c1) = GetCachedThinking Hour test_thinkingID c0;
        (r2, c2) = GetCachedThinking (2 * Hour + 1) test_thinkingID c1
    in r1 = Some \<lparr>ThinkingText = test_thinkingText, Signature = test_signature, Timestamp = 0\<rparr>
       \<and> c1 = c0 \<and> r2 = None)"
  by (simp add: CacheThinking_def GetCachedThinking_def ThinkingCacheTTL_def Hour_def
      test_thinkingID_def test_thinkingText_def Let_def)

section \<open>The request translator\<close>

lemma removeMember_absent:
  "distinct (map fst kvs) \<Longrightarrow> map_of (removeMember k kvs) k = None"
proof (induction kvs)
  case Nil
  then show ?case by simp
next
  case (Cons a kvs)
  obtain k' v' where a: "a = (k', v')" by (cases a)
  show ?case
  proof (cases "k' = k")
    case True
    with Cons.prems a have "k \<notin> fst ` set kvs" by auto
    then have "map_of kvs k = None" by (simp add: map_of_eq_None_iff)
    with True a show ?thesis by simp
  next
    case False
    with Cons a show ?thesis by simp
  qed
qed

lemma removeMember_other:
  "k' \<noteq> k \<Longrightarrow> map_of (removeMember k kvs) k' = map_of kvs k'"
  by (induction kvs) auto

lemma extractThinkingFromContent_miss:
  assumes "thinkIdFind msg = Some thinkingID"
    and "cache thinkingID = None
       \<or> (\<exists>e. cache thinkingID = Some e
             \<and> (now - Timestamp e > ThinkingCacheTTL \<or> \<not> HasValidSignature (Signature e)))"
  shows "fst (extractThinkingFromContent now cache msg) = extractFallback msg"
  using assms
  by (auto simp: extractThinkingFromContent_def GetCachedThinking_def split: option.splits)

lemma extractThinkingFromContent_hit:
  assumes "thinkIdFind msg = Some thinkingID"
    and "cache thinkingID = Some e"
    and "now - Timestamp e \<le> ThinkingCacheTTL"
    and "HasValidSignature (Signature e)"
  shows "fst (extractThinkingFromContent now cache msg)
           = withRemaining
               (JObj [(''type'', JStr ''thinking''), (''thinking'', JStr (ThinkingText e)),
                      (''signature'', JStr (Signature e))])
               (remainingAfterThink msg)"
  using assms thinkIdFind_nonempty [of msg thinkingID]
  by (simp add: extractThinkingFromContent_def GetCachedThinking_def thinkingPart_def)

text \<open>
  C5 (as amended). Let the first (leftmost) thinkId marker of a plain-text message carry an
  identifier that was never cached, or whose entry has expired or carries an invalid
  signature. If the message has a \<^verbatim>\<open><think>...</think>\<close> pair, the translator emits, as its
  first item, a thinking item with exactly the members \<open>type\<close> and \<open>thinking\<close> (no signature
  member), whose text is the text enclosed by the first pair after every escaped fence in
  it is unescaped and the white space around it is trimmed; the remaining text, if any,
  follows. If the message has no such pair, this path emits no thinking item: the legacy
  two-block format is tried.
\<close>

theorem extractThinkingFromContent_unsigned_fallback:
  assumes "thinkIdFind msg = Some thinkingID"
    and "cache thinkingID = None
       \<or> (\<exists>e. cache thinkingID = Some e
             \<and> (now - Timestamp e > ThinkingCacheTTL \<or> \<not> HasValidSignature (Signature e)))"
  shows "(\<forall>pre g post. thinkTagFind msg = Some (pre, g, post) \<longrightarrow>
            fst (extractThinkingFromContent now cache msg)
              = withRemaining
                  (JObj [(''type'', JStr ''thinking''),
                         (''thinking'', JStr (TrimSpace (ReplaceAll g escapedFence fence)))])
                  (remainingAfterThink msg)
            \<and> gjsonGet (hd (fst (extractThinkingFromContent now cache msg))) [''signature'']
                = None)
       \<and> (thinkTagFind msg = None \<longrightarrow>
            fst (extractThinkingFromContent now cache msg) = extractLegacy msg)"
proof -
  have fb: "fst (extractThinkingFromContent now cache msg) = extractFallback msg"
    using assms by (rule extractThinkingFromContent_miss)
  show ?thesis
    unfolding fb by (simp add: extractFallback_def thinkingPart_def withRemaining_def)
qed

lemma fallback_message_marker:
  "thinkIdFind fallback_message = Some ''ba7816bf8f01cfea414140de5dae2223''"
  by code_simp

lemma fallback_message_think:
  "thinkTagFind fallback_message
     = Some ([], ''\<newline>  abc \<newline>'',
             ''\<newline>```plaintext:thinkId:ba7816bf8f01cfea414140de5dae2223```\<newline>Hello'')"
  by code_simp

lemma fallback_message_rest:
  "TrimSpace (ReplaceAll ''\<newline>  abc \<newline>'' escapedFence fence) = ''abc''
   \<and> remainingAfterThink fallback_message = ''Hello''"
  by code_simp

theorem extractThinkingFromContent_unsigned_fallback_witness:
  "fst (extractThinkingFromContent 0 Map.empty fallback_message)
     = [JObj [(''type'', JStr ''thinking''), (''thinking'', JStr ''abc'')],
        JObj [(''type'', JStr ''text''), (''text'', JStr ''Hello'')]]"
proof -
  have miss: "Map.empty ''ba7816bf8f01cfea414140de5dae2223'' = None
       \<or> (\<exists>e. Map.empty ''ba7816bf8f01cfea414140de5dae2223'' = Some e
             \<and> (0 - Timestamp e > ThinkingCacheTTL \<or> \<not> HasValidSignature (Signature e)))"
    by simp
  from extractThinkingFromContent_unsigned_fallback [OF fallback_message_marker miss]
  have "\<forall>pre g post. thinkTagFind fallback_message = Some (pre, g, post) \<longrightarrow>
            fst (extractThinkingFromContent 0 Map.empty fallback_message)
              = withRemaining
                  (JObj [(''type'', JStr ''thinking''),
                         (''thinking'', JStr (TrimSpace (ReplaceAll g escapedFence fence)))])
                  (remainingAfterThink fallback_message)
            \<and> gjsonGet (hd (fst (extractThinkingFromContent 0 Map.empty fallback_message)))
                  [''signature''] = None"
    by (rule conjunct1)
  with fallback_message_think
  have "fst (extractThinkingFromContent 0 Map.empty fallback_message)
          = withRemaining
              (JObj [(''type'', JStr ''thinking''),
                     (''thinking'',
                        JStr (TrimSpace (ReplaceAll ''\<newline>  abc \<newline>'' escapedFence fence)))])
              (remainingAfterThink fallback_message)"
    by blast
  then show ?thesis
    by (simp add: fallback_message_rest withRemaining_def textPart_def)
qed

text \<open>
  C5 as stated fails on a text as the response translator emits it, here for the thinking
  text \<open>  abc \<close> (with blanks around it): the item carries \<open>abc\<close>, which is neither the text
  between the bare tags nor the text between the tags with their newlines.
\<close>

theorem extractThinkingFromContent_trims_counterexample:
  "thinkIdFind fallback_message = Some ''ba7816bf8f01cfea414140de5dae2223''
   \<and> thinkTagFind fallback_message
       = Some ([], ''\<newline>  abc \<newline>'',
               ''\<newline>```plaintext:thinkId:ba7816bf8f01cfea414140de5dae2223```\<newline>Hello'')
   \<and> gjsonGet (hd (fst (extractThinkingFromContent 0 Map.empty fallback_message))) [''thinking'']
       = Some (JStr ''abc'')
   \<and> gjsonGet (hd (fst (extractThinkingFromContent 0 Map.empty fallback_message))) [''thinking'']
       \<noteq> Some (JStr ''\<newline>  abc \<newline>'')
   \<and> gjsonGet (hd (fst (extractThinkingFromContent 0 Map.empty fallback_message))) [''thinking'']
       \<noteq> Some (JStr ''  abc '')"
  by code_simp

text \<open>
  C10. \<^verbatim>\<open>CacheThinking\<close> stores the entry whatever the signature is (empty and short ones
  included), whenever the text and the identifier are non-empty (the identifier the
  response translator passes, \<^verbatim>\<open>GenerateThinkingID(text)\<close>, always is), and a lookup within
  the TTL returns it. The validity check is made when the entry is read back by
  \<^verbatim>\<open>extractThinkingFromContent\<close>, for a message whose first thinkId marker names the entry:
  if the stored signature fails \<^verbatim>\<open>HasValidSignature\<close> and the message has a
  \<^verbatim>\<open><think>...</think>\<close> pair, the first item is a thinking item without a signature member,
  its text taken from the pair, not from the cache; if the stored signature passes, the
  first item carries the cached text and the cached signature.
\<close>

theorem CacheThinking_stores_any_signature:
  assumes "thinkingText \<noteq> []" and "thinkingID \<noteq> []"
  shows "CacheThinking now thinkingID thinkingText signature cache thinkingID
           = Some \<lparr>ThinkingText = thinkingText, Signature = signature, Timestamp = now\<rparr>
       \<and> CacheThinking now (GenerateThinkingID thinkingText) thinkingText signature cache
            (GenerateThinkingID thinkingText)
           = Some \<lparr>ThinkingText = thinkingText, Signature = signature, Timestamp = now\<rparr>
       \<and> (now' - now \<le> ThinkingCacheTTL \<longrightarrow>
            fst (GetCachedThinking now' thinkingID
                   (CacheThinking now thinkingID thinkingText signature cache))
              = Some \<lparr>ThinkingText = thinkingText, Signature = signature, Timestamp = now\<rparr>)
       \<and> (now' - now \<le> ThinkingCacheTTL \<and> \<not> HasValidSignature signature
            \<and> thinkIdFind msg = Some thinkingID \<and> thinkTagFind msg = Some (pre, g, post) \<longrightarrow>
            fst (extractThinkingFromContent now'
                   (CacheThinking now thinkingID thinkingText signature cache) msg)
              = withRemaining
                  (JObj [(''type'', JStr ''thinking''),
                         (''thinking'', JStr (TrimSpace (ReplaceAll g escapedFence fence)))])
                  (remainingAfterThink msg))
       \<and> (now' - now \<le> ThinkingCacheTTL \<and> HasValidSignature signature
            \<and> thinkIdFind msg = Some thinkingID \<longrightarrow>
            fst (extractThinkingFromContent now'
                   (CacheThinking now thinkingID thinkingText signature cache) msg)
              = withRemaining
                  (JObj [(''type'', JStr ''thinking''), (''thinking'', JStr thinkingText),
                         (''signature'', JStr signature)])
                  (remainingAfterThink msg))"
proof -
  let ?c = "CacheThinking now thinkingID thinkingText signature cache"
  let ?e = "\<lparr>ThinkingText = thinkingText, Signature = signature, Timestamp = now\<rparr>"
  have st: "?c thinkingID = Some ?e"
    using assms by (simp add: CacheThinking_def)
  have unsigned: "fst (extractThinkingFromContent now' ?c msg)
          = withRemaining
              (JObj [(''type'', JStr ''thinking''),
                     (''thinking'', JStr (TrimSpace (ReplaceAll g escapedFence fence)))])
              (remainingAfterThink msg)"
    if "now' - now \<le> ThinkingCacheTTL \<and> \<not> HasValidSignature signature
          \<and> thinkIdFind msg = Some thinkingID \<and> thinkTagFind msg = Some (pre, g, post)"
  proof -
    have "fst (extractThinkingFromContent now' ?c msg) = extractFallback msg"
      using that st by (intro extractThinkingFromContent_miss) auto
    with that show ?thesis
      by (simp add: extractFallback_def thinkingPart_def)
  qed
  have signed: "fst (extractThinkingFromContent now' ?c msg)
          = withRemaining
              (JObj [(''type'', JStr ''thinking''), (''thinking'', JStr thinkingText),
                     (''signature'', JStr signature)])
              (remainingAfterThink msg)"
    if "now' - now \<le> ThinkingCacheTTL \<and> HasValidSignature signature
          \<and> thinkIdFind msg = Some thinkingID"
    using extractThinkingFromContent_hit [where msg = msg and thinkingID = thinkingID
        and cache = ?c and e = ?e and now = now'] that st by simp
  have get: "fst (GetCachedThinking now' thinkingID ?c) = Some ?e"
    if "now' - now \<le> ThinkingCacheTTL"
    using that assms by (simp add: CacheThinking_def GetCachedThinking_def)
  have gen: "CacheThinking now (GenerateThinkingID thinkingText) thinkingText signature cache
            (GenerateThinkingID thinkingText) = Some ?e"
    using assms GenerateThinkingID_nonempty [of thinkingText] by (simp add: CacheThinking_def)
  from st gen get unsigned signed show ?thesis by blast
qed

theorem CacheThinking_stores_any_signature_witness:
  "CacheThinking 0 ''ba7816bf8f01cfea414140de5dae2223'' ''abc'' ''short'' Map.empty
      ''ba7816bf8f01cfea414140de5dae2223''
     = Some \<lparr>ThinkingText = ''abc'', Signature = ''short'', Timestamp = 0\<rparr>
   \<and> fst (GetCachedThinking Hour ''ba7816bf8f01cfea414140de5dae2223''
            (CacheThinking 0 ''ba7816bf8f01cfea414140de5dae2223'' ''abc'' ''short'' Map.empty))
     = Some \<lparr>ThinkingText = ''abc'', Signature = ''short'', Timestamp = 0\<rparr>
   \<and> fst (extractThinkingFromContent Hour
            (CacheThinking 0 ''ba7816bf8f01cfea414140de5dae2223'' ''cached text'' ''short'' Map.empty)
            fallback_message)
     = [JObj [(''type'', JStr ''thinking''), (''thinking'', JStr ''abc'')],
        JObj [(''type'', JStr ''text''), (''text'', JStr ''Hello'')]]
   \<and> fst (extractThinkingFromContent Hour
            (CacheThinking 0 ''ba7816bf8f01cfea414140de5dae2223'' ''cached text'' test_signature
               Map.empty)
            fallback_message)
     = [JObj [(''type'', JStr ''thinking''), (''thinking'', JStr ''cached text''),
              (''signature'', JStr test_signature)],
        JObj [(''type'', JStr ''text''), (''text'', JStr ''Hello'')]]"
proof -
  have t: "Hour - 0 \<le> ThinkingCacheTTL" by (simp add: ThinkingCacheTTL_def Hour_def)
  have s: "\<not> HasValidSignature ''short''"
    by (simp add: HasValidSignature_def MinValidSignatureLen_def)
  have ne: "''abc'' \<noteq> []" "''cached text'' \<noteq> []" "''ba7816bf8f01cfea414140de5dae2223'' \<noteq> []"
    by simp_all
  note a = CacheThinking_stores_any_signature
      [OF ne(1) ne(3), where now = 0 and signature = "''short''" and cache = Map.empty
        and now' = Hour and msg = fallback_message]
  note b = CacheThinking_stores_any_signature
      [OF ne(2) ne(3), where now = 0 and signature = "''short''" and cache = Map.empty
        and now' = Hour and msg = fallback_message and pre = "[]" and g = "''\<newline>  abc \<newline>''"
        and post = "''\<newline>```plaintext:thinkId:ba7816bf8f01cfea414140de5dae2223```\<newline>Hello''"]
  note c = CacheThinking_stores_any_signature
      [OF ne(2) ne(3), where now = 0 and signature = test_signature and cache = Map.empty
        and now' = Hour and msg = fallback_message]
  have 1: "CacheThinking 0 ''ba7816bf8f01cfea414140de5dae2223'' ''abc'' ''short'' Map.empty
      ''ba7816bf8f01cfea414140de5dae2223''
     = Some \<lparr>ThinkingText = ''abc'', Signature = ''short'', Timestamp = 0\<rparr>"
    using a by blast
  have 2: "fst (GetCachedThinking Hour ''ba7816bf8f01cfea414140de5dae2223''
            (CacheThinking 0 ''ba7816bf8f01cfea414140de5dae2223'' ''abc'' ''short'' Map.empty))
     = Some \<lparr>ThinkingText = ''abc'', Signature = ''short'', Timestamp = 0\<rparr>"
    using a t by blast
  have "fst (extractThinkingFromContent Hour
            (CacheThinking 0 ''ba7816bf8f01cfea414140de5dae2223'' ''cached text'' ''short'' Map.empty)
            fallback_message)
     = withRemaining
         (JObj [(''type'', JStr ''thinking''),
                (''thinking'', JStr (TrimSpace (ReplaceAll ''\<newline>  abc \<newline>'' escapedFence fence)))])
         (remainingAfterThink fallback_message)"
    using b t s fallback_message_marker fallback_message_think by blast
  then have 3: "fst (extractThinkingFromContent Hour
            (CacheThinking 0 ''ba7816bf8f01cfea414140de5dae2223'' ''cached text'' ''short'' Map.empty)
            fallback_message)
     = [JObj [(''type'', JStr ''thinking''), (''thinking'', JStr ''abc'')],
        JObj [(''type'', JStr ''text''), (''text'', JStr ''Hello'')]]"
    by (simp add: fallback_message_rest withRemaining_def textPart_def)
  have "fst (extractThinkingFromContent Hour
            (CacheThinking 0 ''ba7816bf8f01cfea414140de5dae2223'' ''cached text'' test_signature
               Map.empty)
            fallback_message)
     = withRemaining
         (JObj [(''type'', JStr ''thinking''), (''thinking'', JStr ''cached text''),
                (''signature'', JStr test_signature)])
         (remainingAfterThink fallback_message)"
    using c t HasValidSignature_test_signature fallback_message_marker by blast
  then have 4: "fst (extractThinkingFromContent Hour
            (CacheThinking 0 ''ba7816bf8f01cfea414140de5dae2223'' ''cached text'' test_signature
               Map.empty)
            fallback_message)
     = [JObj [(''type'', JStr ''thinking''), (''thinking'', JStr ''cached text''),
              (''signature'', JStr test_signature)],
        JObj [(''type'', JStr ''text''), (''text'', JStr ''Hello'')]]"
    by (simp add: fallback_message_rest withRemaining_def textPart_def)
  from 1 2 3 4 show ?thesis by blast
qed

text \<open>
  C6 (as amended). Let thinking be enabled in the request (\<^verbatim>\<open>thinking.type = "enabled"\<close>), and
  let its last assistant message have an array as content. If the array is not empty and
  its first item is neither a thinking nor a redacted-thinking item, the \<^verbatim>\<open>thinking\<close> member
  is removed from the request and every other member is kept; if the first item is one of
  the two, or the array is empty, the request is returned unchanged.
\<close>

theorem ensureAssistantThinkingBlock_strips_or_keeps:
  assumes req: "requestJSON = JObj kvs" and d: "distinct (map fst kvs)"
    and en: "gjsonGet requestJSON [''thinking'', ''type''] = Some (JStr ''enabled'')"
    and ms: "gjsonGet requestJSON [''messages''] = Some (JArr messages)"
    and la: "lastAssistant messages = Some a"
    and ct: "gjsonGet a [''content''] = Some (JArr content)"
  shows "(content = [] \<longrightarrow> ensureAssistantThinkingBlock requestJSON = requestJSON)
       \<and> (\<forall>c cs. content = c # cs \<longrightarrow>
            (if gjsonString (gjsonGet c [''type'']) = ''thinking''
                \<or> gjsonString (gjsonGet c [''type'']) = ''redacted_thinking''
             then ensureAssistantThinkingBlock requestJSON = requestJSON
             else ensureAssistantThinkingBlock requestJSON = JObj (removeMember ''thinking'' kvs)
                  \<and> gjsonGet (ensureAssistantThinkingBlock requestJSON) [''thinking''] = None
                  \<and> (\<forall>k. k \<noteq> ''thinking'' \<longrightarrow>
                        gjsonGet (ensureAssistantThinkingBlock requestJSON) [k]
                          = gjsonGet requestJSON [k])))"
proof -
  have m: "messages \<noteq> []" using la by (cases messages) auto
  show ?thesis
    using en ms la ct m d
    by (auto simp: ensureAssistantThinkingBlock_def Let_def req removeMember_absent
        removeMember_other)
qed

theorem ensureAssistantThinkingBlock_strips_or_keeps_witness:
  "ensureAssistantThinkingBlock (JObj fix_members) = JObj (removeMember ''thinking'' fix_members)
   \<and> gjsonGet (ensureAssistantThinkingBlock (JObj fix_members)) [''thinking''] = None"
proof -
  have d: "distinct (map fst fix_members)" by (simp add: fix_members_def)
  have en: "gjsonGet (JObj fix_members) [''thinking'', ''type''] = Some (JStr ''enabled'')"
    by (simp add: fix_members_def)
  have ms: "gjsonGet (JObj fix_members) [''messages'']
      = Some (JArr [JObj [(''role'', JStr ''user''),
                     (''content'', JArr [JObj [(''type'', JStr ''text''), (''text'', JStr ''test token usage'')]])],
               fix_assistant])"
    by (simp add: fix_members_def)
  have la: "lastAssistant [JObj [(''role'', JStr ''user''),
                     (''content'', JArr [JObj [(''type'', JStr ''text''), (''text'', JStr ''test token usage'')]])],
               fix_assistant] = Some fix_assistant"
    by (simp add: fix_assistant_def)
  have ct: "gjsonGet fix_assistant [''content'']
      = Some (JArr [JObj [(''type'', JStr ''text''), (''text'', JStr ''I will test token usage'')],
                    JObj [(''type'', JStr ''tool_use''), (''id'', JStr ''toolu_123''),
                          (''name'', JStr ''search_vault_smart''),
                          (''input'', JObj [(''query'', JStr ''token usage'')])]])"
    by (simp add: fix_assistant_def)
  define c where "c = JObj [(''type'', JStr ''text''), (''text'', JStr ''I will test token usage'')]"
  have nc: "\<not> (gjsonString (gjsonGet c [''type'']) = ''thinking''
                \<or> gjsonString (gjsonGet c [''type'']) = ''redacted_thinking'')"
    by (simp add: c_def)
  from ensureAssistantThinkingBlock_strips_or_keeps [OF refl d en ms la ct]
  have "if gjsonString (gjsonGet c [''type'']) = ''thinking''
           \<or> gjsonString (gjsonGet c [''type'']) = ''redacted_thinking''
        then ensureAssistantThinkingBlock (JObj fix_members) = JObj fix_members
        else ensureAssistantThinkingBlock (JObj fix_members) = JObj (removeMember ''thinking'' fix_members)
             \<and> gjsonGet (ensureAssistantThinkingBlock (JObj fix_members)) [''thinking''] = None
             \<and> (\<forall>k. k \<noteq> ''thinking'' \<longrightarrow>
                   gjsonGet (ensureAssistantThinkingBlock (JObj fix_members)) [k]
                     = gjsonGet (JObj fix_members) [k])"
    unfolding c_def by blast
  then have "ensureAssistantThinkingBlock (JObj fix_members) = JObj (removeMember ''thinking'' fix_members)
             \<and> gjsonGet (ensureAssistantThinkingBlock (JObj fix_members)) [''thinking''] = None
             \<and> (\<forall>k. k \<noteq> ''thinking'' \<longrightarrow>
                   gjsonGet (ensureAssistantThinkingBlock (JObj fix_members)) [k]
                     = gjsonGet (JObj fix_members) [k])"
    unfolding if_not_P [OF nc] .
  then show ?thesis by blast
qed

text \<open>
  C6 as stated fails when the last assistant message has an empty content array (the
  guard \<^verbatim>\<open>len(content.Array()) == 0\<close>): the content does not begin with a thinking item, and
  the request is returned with its \<^verbatim>\<open>thinking\<close> object.
\<close>

theorem ensureAssistantThinkingBlock_empty_content_counterexample:
  "gjsonString (gjsonGet empty_content_request [''thinking'', ''type'']) = ''enabled''
   \<and> lastAssistant (gjsonArray (gjsonGet empty_content_request [''messages'']))
       = Some (JObj [(''role'', JStr ''assistant''), (''content'', JArr [])])
   \<and> ensureAssistantThinkingBlock empty_content_request = empty_content_request
   \<and> gjsonGet (ensureAssistantThinkingBlock empty_content_request) [''thinking'']
       = Some (JObj [(''type'', JStr ''enabled''), (''budget_tokens'', JNum 24576)])"
  by (simp add: empty_content_request_def ensureAssistantThinkingBlock_def)

section \<open>The response translator\<close>

lemmas translator_defs =
  ConvertClaudeResponseToOpenAI_def Let_def
  template_def sjsonSet_def contentPath_def isIndex_def isDigit_def parseDigits_def digitVal_def
  contentChunkFor_def

lemma closingContent_no_signature:
  assumes len: "50 \<le> length S" and b64: "\<forall>c \<in> set S. isBase64 c" and tid: "length tid = 32"
  shows "\<not> sublist S (closingContent tid)"
proof
  assume "sublist S (closingContent tid)"
  then obtain ps ss where eq: "closingContent tid = ps @ S @ ss"
    by (auto simp: sublist_def)
  have "length (closingContent tid) = 67"
    by (simp add: closingContent_def tid)
  with eq have "length ps + length S + length ss = 67" by simp
  with len have ps: "length ps \<le> 17" by linarith
  from ps len have lt: "30 - length ps < length S" by linarith
  have "closingContent tid ! 30 = CHR '':''"
    by (simp add: closingContent_def nth_append)
  moreover have "(ps @ S @ ss) ! 30 = S ! (30 - length ps)"
    using ps lt by (simp add: nth_append)
  moreover have "S ! (30 - length ps) \<in> set S"
    using lt by (rule nth_mem)
  ultimately have "isBase64 (CHR '':'')"
    using b64 eq by metis
  then show False by (simp add: isBase64_def)
qed

lemma short_content_no_signature:
  "50 \<le> length S \<Longrightarrow> length x < 50 \<Longrightarrow> \<not> sublist S x"
  using sublist_length_le [of S x] by auto

lemma step_start:
  "ConvertClaudeResponseToOpenAI now cache m (content_block_start_thinking i) (Some p)
     = ([contentChunkFor p m ''<think>\<newline>''],
        p\<lparr>ThinkingAccumulators :=
            Some ((makeIfNil (ThinkingAccumulators p))(i \<mapsto> \<lparr>AccThinking = [], AccSignature = []\<rparr>))\<rparr>,
        cache)"
  by (simp add: translator_defs content_block_start_thinking_def)

lemma step_thinking_delta:
  "lookupAcc (ThinkingAccumulators p) i = Some acc \<Longrightarrow>
   ConvertClaudeResponseToOpenAI now cache m (thinking_delta i s) (Some p)
     = ([contentChunkFor p m s],
        p\<lparr>ThinkingAccumulators :=
            Some ((makeIfNil (ThinkingAccumulators p))(i \<mapsto> acc\<lparr>AccThinking := AccThinking acc @ s\<rparr>))\<rparr>,
        cache)"
  by (simp add: translator_defs thinking_delta_def)

lemma step_signature_delta:
  "lookupAcc (ThinkingAccumulators p) i = Some acc \<Longrightarrow>
   ConvertClaudeResponseToOpenAI now cache m (signature_delta i s) (Some p)
     = ([],
        p\<lparr>ThinkingAccumulators :=
            Some ((makeIfNil (ThinkingAccumulators p))(i \<mapsto> acc\<lparr>AccSignature := AccSignature acc @ s\<rparr>))\<rparr>,
        cache)"
  by (simp add: translator_defs signature_delta_def)

lemma step_text_delta:
  "ConvertClaudeResponseToOpenAI now cache m (text_delta i s) (Some p)
     = ([contentChunkFor p m s], p, cache)"
  by (simp add: translator_defs text_delta_def)

lemma step_stop:
  "lookupAcc (ToolCallsAccumulator p) i = None \<Longrightarrow>
   lookupAcc (ThinkingAccumulators p) i = Some acc \<Longrightarrow>
   ConvertClaudeResponseToOpenAI now cache m (content_block_stop i) (Some p)
     = ([contentChunkFor p m (closingContent (GenerateThinkingID (AccThinking acc)))],
        p\<lparr>ThinkingAccumulators := Some ((makeIfNil (ThinkingAccumulators p))(i := None))\<rparr>,
        if AccThinking acc \<noteq> []
        then CacheThinking now (GenerateThinkingID (AccThinking acc)) (AccThinking acc)
               (AccSignature acc) cache
        else cache)"
  by (simp add: translator_defs content_block_stop_def)

lemma contentChunkFor_content:
  "gjsonString (gjsonGet (contentChunkFor p m s) contentPath) = s"
  by (simp add: contentChunkFor_def contentPath_def isIndex_def isDigit_def parseDigits_def
      digitVal_def)

lemma contentChunkFor_accumulators:
  "contentChunkFor (p\<lparr>ThinkingAccumulators := x\<rparr>) m s = contentChunkFor p m s"
  by (simp add: contentChunkFor_def)

lemma scenarioA_run:
  assumes tools: "lookupAcc (ToolCallsAccumulator p) 0 = None"
  shows "convertStream now cache modelName (Some p) (scenarioA S)
           = ([[contentChunkFor p modelName ''<think>\<newline>''],
               [contentChunkFor p modelName ''Let me ''],
               [contentChunkFor p modelName ''think.''],
               [],
               [contentChunkFor p modelName (closingContent (GenerateThinkingID ''Let me think.''))]],
              Some (p\<lparr>ThinkingAccumulators :=
                       Some ((makeIfNil (ThinkingAccumulators p))(0 := None))\<rparr>),
              CacheThinking now (GenerateThinkingID ''Let me think.'') ''Let me think.'' S cache)"
proof -
  define base where "base = makeIfNil (ThinkingAccumulators p)"
  define p1 where "p1 = p\<lparr>ThinkingAccumulators :=
      Some (base(0 \<mapsto> \<lparr>AccThinking = [], AccSignature = []\<rparr>))\<rparr>"
  define p2 where "p2 = p\<lparr>ThinkingAccumulators :=
      Some (base(0 \<mapsto> \<lparr>AccThinking = ''Let me '', AccSignature = []\<rparr>))\<rparr>"
  define p3 where "p3 = p\<lparr>ThinkingAccumulators :=
      Some (base(0 \<mapsto> \<lparr>AccThinking = ''Let me think.'', AccSignature = []\<rparr>))\<rparr>"
  define p4 where "p4 = p\<lparr>ThinkingAccumulators :=
      Some (base(0 \<mapsto> \<lparr>AccThinking = ''Let me think.'', AccSignature = S\<rparr>))\<rparr>"
  define p5 where "p5 = p\<lparr>ThinkingAccumulators := Some (base(0 := None))\<rparr>"
  note chunk = contentChunkFor_accumulators
  have s1: "ConvertClaudeResponseToOpenAI now cache modelName (content_block_start_thinking 0) (Some p)
      = ([contentChunkFor p modelName ''<think>\<newline>''], p1, cache)"
    by (simp add: step_start p1_def base_def)
  have "lookupAcc (ThinkingAccumulators p1) 0 = Some \<lparr>AccThinking = [], AccSignature = []\<rparr>"
    by (simp add: p1_def lookupAcc_def)
  from step_thinking_delta [OF this, of now cache modelName "''Let me ''"]
  have s2: "ConvertClaudeResponseToOpenAI now cache modelName (thinking_delta 0 ''Let me '') (Some p1)
      = ([contentChunkFor p modelName ''Let me ''], p2, cache)"
    by (simp add: chunk p1_def p2_def makeIfNil_def)
  have "lookupAcc (ThinkingAccumulators p2) 0
      = Some \<lparr>AccThinking = ''Let me '', AccSignature = []\<rparr>"
    by (simp add: p2_def lookupAcc_def)
  from step_thinking_delta [OF this, of now cache modelName "''think.''"]
  have s3: "ConvertClaudeResponseToOpenAI now cache modelName (thinking_delta 0 ''think.'') (Some p2)
      = ([contentChunkFor p modelName ''think.''], p3, cache)"
    by (simp add: chunk p2_def p3_def makeIfNil_def)
  have "lookupAcc (ThinkingAccumulators p3) 0
      = Some \<lparr>AccThinking = ''Let me think.'', AccSignature = []\<rparr>"
    by (simp add: p3_def lookupAcc_def)
  from step_signature_delta [OF this, of now cache modelName S]
  have s4: "ConvertClaudeResponseToOpenAI now cache modelName (signature_delta 0 S) (Some p3)
      = ([], p4, cache)"
    by (simp add: p3_def p4_def makeIfNil_def)
  have t4: "lookupAcc (ToolCallsAccumulator p4) 0 = None"
    using tools by (simp add: p4_def)
  have "lookupAcc (ThinkingAccumulators p4) 0
      = Some \<lparr>AccThinking = ''Let me think.'', AccSignature = S\<rparr>"
    by (simp add: p4_def lookupAcc_def)
  from step_stop [OF t4 this, of now cache modelName]
  have s5: "ConvertClaudeResponseToOpenAI now cache modelName (content_block_stop 0) (Some p4)
      = ([contentChunkFor p modelName (closingContent (GenerateThinkingID ''Let me think.''))], p5,
         CacheThinking now (GenerateThinkingID ''Let me think.'') ''Let me think.'' S cache)"
    by (simp add: chunk p4_def p5_def makeIfNil_def)
  show ?thesis
    by (simp add: scenarioA_def s1 s2 s3 s4 s5) (simp add: p5_def base_def)
qed

text \<open>
  C2. From any state of the stream with no tool accumulator open at index 0, the five
  events of the scenario, for any signature \<open>S\<close>, give step by step: the opening chunk, a
  chunk with \<open>Let me \<close>, a chunk with \<open>think.\<close> (each in the step in which the fragment
  arrives), nothing for the signature, and the closing chunk with the closing marker and
  \<open>thinkId:\<close> followed by the identifier of \<open>Let me think.\<close>. The signature goes to the cache
  only: no chunk depends on it, and when it is a base64 text of at least 50 characters no
  chunk's content contains it.
\<close>

theorem scenarioA_chunks:
  assumes "lookupAcc (ToolCallsAccumulator p) 0 = None"
  shows "fst (convertStream now cache modelName (Some p) (scenarioA S))
           = [[contentChunkFor p modelName ''<think>\<newline>''],
              [contentChunkFor p modelName ''Let me ''],
              [contentChunkFor p modelName ''think.''],
              [],
              [contentChunkFor p modelName
                 (''\<newline></think>\<newline>```plaintext:thinkId:''
                    @ GenerateThinkingID ''Let me think.'' @ ''```\<newline>'')]]
       \<and> chunkContents (fst (convertStream now cache modelName (Some p) (scenarioA S)))
           = [''<think>\<newline>'', ''Let me '', ''think.'',
              ''\<newline></think>\<newline>```plaintext:thinkId:''
                 @ GenerateThinkingID ''Let me think.'' @ ''```\<newline>'']
       \<and> snd (snd (convertStream now cache modelName (Some p) (scenarioA S)))
           = CacheThinking now (GenerateThinkingID ''Let me think.'') ''Let me think.'' S cache
       \<and> (50 \<le> length S \<and> (\<forall>c \<in> set S. isBase64 c) \<longrightarrow>
            (\<forall>x \<in> set (chunkContents (fst (convertStream now cache modelName (Some p) (scenarioA S)))).
               \<not> sublist S x))"
proof -
  note run = scenarioA_run [OF assms, of now cache modelName S]
  have cl: "closingContent (GenerateThinkingID ''Let me think.'')
      = ''\<newline></think>\<newline>```plaintext:thinkId:'' @ GenerateThinkingID ''Let me think.'' @ ''```\<newline>''"
    by (simp add: closingContent_def)
  have cc: "chunkContents (fst (convertStream now cache modelName (Some p) (scenarioA S)))
           = [''<think>\<newline>'', ''Let me '', ''think.'',
              closingContent (GenerateThinkingID ''Let me think.'')]"
    by (simp add: run chunkContents_def contentChunkFor_content)
  have ns: "\<forall>x \<in> set (chunkContents (fst (convertStream now cache modelName (Some p) (scenarioA S)))).
               \<not> sublist S x"
    if "50 \<le> length S \<and> (\<forall>c \<in> set S. isBase64 c)"
    using that closingContent_no_signature [of S "GenerateThinkingID ''Let me think.''"]
      short_content_no_signature [of S]
    by (simp add: cc length_GenerateThinkingID)
  have c1: "fst (convertStream now cache modelName (Some p) (scenarioA S))
           = [[contentChunkFor p modelName ''<think>\<newline>''],
              [contentChunkFor p modelName ''Let me ''],
              [contentChunkFor p modelName ''think.''],
              [],
              [contentChunkFor p modelName
                 (''\<newline></think>\<newline>```plaintext:thinkId:''
                    @ GenerateThinkingID ''Let me think.'' @ ''```\<newline>'')]]"
    unfolding run cl [symmetric] by simp
  have c2: "chunkContents (fst (convertStream now cache modelName (Some p) (scenarioA S)))
           = [''<think>\<newline>'', ''Let me '', ''think.'',
              ''\<newline></think>\<newline>```plaintext:thinkId:''
                 @ GenerateThinkingID ''Let me think.'' @ ''```\<newline>'']"
    unfolding cc cl [symmetric] by (rule refl)
  have c3: "snd (snd (convertStream now cache modelName (Some p) (scenarioA S)))
           = CacheThinking now (GenerateThinkingID ''Let me think.'') ''Let me think.'' S cache"
    unfolding run by simp
  have c4: "50 \<le> length S \<and> (\<forall>c \<in> set S. isBase64 c) \<longrightarrow>
            (\<forall>x \<in> set (chunkContents (fst (convertStream now cache modelName (Some p) (scenarioA S)))).
               \<not> sublist S x)"
    using ns by blast
  from c1 c2 c3 c4 show ?thesis by blast
qed

lemma newParams_no_tools: "lookupAcc (ToolCallsAccumulator newParams) 0 = None"
  by (simp add: newParams_def lookupAcc_def)

theorem scenarioA_chunks_witness:
  "chunkContents (fst (convertStream 0 Map.empty ''claude-sonnet-4-5'' (Some newParams)
      (scenarioA test_signature)))
     = [''<think>\<newline>'', ''Let me '', ''think.'',
        ''\<newline></think>\<newline>```plaintext:thinkId:'' @ GenerateThinkingID ''Let me think.'' @ ''```\<newline>'']
   \<and> \<not> sublist test_signature ''<think>\<newline>''
   \<and> \<not> sublist test_signature ''Let me ''
   \<and> \<not> sublist test_signature ''think.''
   \<and> \<not> sublist test_signature
         (''\<newline></think>\<newline>```plaintext:thinkId:'' @ GenerateThinkingID ''Let me think.'' @ ''```\<newline>'')"
proof -
  have b: "50 \<le> length test_signature \<and> (\<forall>c \<in> set test_signature. isBase64 c)"
    by (simp add: test_signature_def isBase64_def)
  note t = scenarioA_chunks [OF newParams_no_tools, of 0 Map.empty "''claude-sonnet-4-5''" test_signature]
  from t have 1: "chunkContents (fst (convertStream 0 Map.empty ''claude-sonnet-4-5'' (Some newParams)
      (scenarioA test_signature)))
     = [''<think>\<newline>'', ''Let me '', ''think.'',
        ''\<newline></think>\<newline>```plaintext:thinkId:'' @ GenerateThinkingID ''Let me think.'' @ ''```\<newline>'']"
    by blast
  from t b have "\<forall>x \<in> set (chunkContents (fst (convertStream 0 Map.empty ''claude-sonnet-4-5''
      (Some newParams) (scenarioA test_signature)))). \<not> sublist test_signature x"
    by blast
  then have 2: "\<forall>x \<in> set [''<think>\<newline>'', ''Let me '', ''think.'',
        ''\<newline></think>\<newline>```plaintext:thinkId:'' @ GenerateThinkingID ''Let me think.'' @ ''```\<newline>''].
      \<not> sublist test_signature x"
    unfolding 1 .
  from 1 2 show ?thesis by simp
qed

text \<open>The identifier of the scenario, evaluated: the first 32 hex digits of the SHA-256
  digest of \<open>Let me think.\<close>.\<close>

lemma GenerateThinkingID_Let_me_think:
  "GenerateThinkingID ''Let me think.'' = ''a0e90b3995069d8a3d3391fc04ca18be''"
  by code_simp

section \<open>The suffix parser\<close>





section \<open>The Claude applier's budget normalisation\<close>

text \<open>
  Claim C8. \<^verbatim>\<open>normalizeClaudeBudget\<close> on a Claude request with an enabled thinking budget \<open>b > 0\<close>,
  for a model with thinking support. With an explicit positive \<^verbatim>\<open>max_tokens\<close> \<open>m\<close> the request
  keeps \<open>m\<close>, and its budget stays \<open>b\<close> when \<open>b < m\<close>, becomes \<open>m - 1\<close> when \<open>b \<ge> m\<close>, except
  that the shrink is abandoned when \<open>0 < m - 1 < Min\<close>. Without \<^verbatim>\<open>max_tokens\<close> the model's
  positive default \<open>d\<close> takes the place of \<open>m\<close> and is written into the request. The guard of
  the code asks for a positive shrunk budget (\<^verbatim>\<open>adjustedBudget > 0\<close>): with \<open>m = 1\<close> the shrunk
  budget is \<open>0\<close>, below every positive minimum, and it is written all the same.
\<close>

theorem normalizeClaudeBudget_shrink:
  assumes "0 < b" and "Thinking mi = Some ts"
  shows "(0 < m \<longrightarrow>
            normalizeClaudeBudget (claudeRequest (Some m) b) b (Some mi) =
            claudeRequest (Some m)
              (if b < m then b
               else if 0 < MinBudget ts \<and> 0 < m - 1 \<and> m - 1 < MinBudget ts then b
               else m - 1))
       \<and> (0 < MaxCompletionTokens mi \<longrightarrow>
            normalizeClaudeBudget (claudeRequest None b) b (Some mi) =
            JObj [(''thinking'', JObj [(''type'', JStr ''enabled''),
                    (''budget_tokens'', JNum
                       (if b < MaxCompletionTokens mi then b
                        else if 0 < MinBudget ts \<and> 0 < MaxCompletionTokens mi - 1
                                \<and> MaxCompletionTokens mi - 1 < MinBudget ts then b
                        else MaxCompletionTokens mi - 1))]),
                  (''max_tokens'', JNum (MaxCompletionTokens mi))])"
  using assms
  by (auto simp: normalizeClaudeBudget_def effectiveMaxTokens_def claudeRequest_def gjsonExists_def
       sjsonSet_def Let_def)

theorem normalizeClaudeBudget_max_tokens_one:
  "0 < (2048 :: int)
   \<and> Thinking thinking_model =
       Some \<lparr>MinBudget = 1024, MaxBudget = 128000, ZeroAllowed = True, DynamicAllowed = False\<rparr>
   \<and> normalizeClaudeBudget (claudeRequest (Some 1) 2048) 2048 (Some thinking_model) =
       claudeRequest (Some 1) 0
   \<and> normalizeClaudeBudget (claudeRequest (Some 1000) 2048) 2048 (Some thinking_model) =
       claudeRequest (Some 1000) 2048
   \<and> normalizeClaudeBudget (claudeRequest (Some 2000) 2048) 2048 (Some thinking_model) =
       claudeRequest (Some 2000) 1999
   \<and> normalizeClaudeBudget (claudeRequest None 128100) 128100 (Some thinking_model) =
       JObj [(''thinking'', JObj [(''type'', JStr ''enabled''), (''budget_tokens'', JNum 63999)]),
             (''max_tokens'', JNum 64000)]"
proof -
  have ts: "Thinking thinking_model =
       Some \<lparr>MinBudget = 1024, MaxBudget = 128000, ZeroAllowed = True, DynamicAllowed = False\<rparr>"
    by (simp add: thinking_model_def)
  have d: "MaxCompletionTokens thinking_model = 64000"
    by (simp add: thinking_model_def)
  have b: "0 < (2048 :: int)" "0 < (128100 :: int)"
    by simp_all
  note one = normalizeClaudeBudget_shrink [OF b(1) ts, of 1]
  note thousand = normalizeClaudeBudget_shrink [OF b(1) ts, of 1000]
  note twothousand = normalizeClaudeBudget_shrink [OF b(1) ts, of 2000]
  note dflt = normalizeClaudeBudget_shrink [OF b(2) ts, of 1]
  from one have c1: "normalizeClaudeBudget (claudeRequest (Some 1) 2048) 2048 (Some thinking_model) =
       claudeRequest (Some 1) 0"
    by simp
  from thousand have c2:
    "normalizeClaudeBudget (claudeRequest (Some 1000) 2048) 2048 (Some thinking_model) =
       claudeRequest (Some 1000) 2048"
    by simp
  from twothousand have c3:
    "normalizeClaudeBudget (claudeRequest (Some 2000) 2048) 2048 (Some thinking_model) =
       claudeRequest (Some 2000) 1999"
    by simp
  from dflt have c4:
    "normalizeClaudeBudget (claudeRequest None 128100) 128100 (Some thinking_model) =
       JObj [(''thinking'', JObj [(''type'', JStr ''enabled''), (''budget_tokens'', JNum 63999)]),
             (''max_tokens'', JNum 64000)]"
    by (simp add: d)
  from b(1) ts c1 c2 c3 c4 show ?thesis
    by blast
qed

lemma Apply_max_tokens_one:
  "Apply (Some (JObj [(''max_tokens'', JNum 1)]))
     \<lparr>Mode = ModeBudget, Budget = 2048, Level = [], Effort = [], Speed = []\<rparr>
     (Some thinking_model) =
   (Some (JObj [(''max_tokens'', JNum 1),
                (''thinking'', JObj [(''type'', JStr ''enabled''), (''budget_tokens'', JNum 0)])]),
    None)"
  by code_simp

section \<open>ApplyThinking: where the configuration comes from\<close>




end
